theory Spec2Isabelle
  imports
    Complex_Main
    "HOL-Library.Word"
    "HOL-Library.Char_ord"
    "HOL-Library.List_Lexorder"
    "HOL-Library.Signed_Division"
    "HOL-Library.Monad_Syntax"
begin

section \<open>Common ground\<close>

text \<open>
  Go values that are reached through pointers live in a store: an object list, in which
  the address of an object is its index. Allocation (\<^verbatim>\<open>&T{...}\<close>) appends, so a new
  address is never one already in use. A nil pointer is \<open>None\<close>.

  Go's \<^verbatim>\<open>int\<close> is taken at its 64-bit width (amd64, arm64).
\<close>

type_synonym addr = nat

type_synonym go_int = "64 word"

datatype panic =
    NilDereference      \<comment> \<open>invalid memory address or nil pointer dereference\<close>
  | InterfaceConversion \<comment> \<open>a failed type assertion \<^verbatim>\<open>x.(T)\<close>\<close>

text \<open>
  A value of type \<^verbatim>\<open>interface{}\<close> as \<^verbatim>\<open>encoding/json\<close> builds it, which is also the tree
  of a JSON text: nil, a bool, a \<^verbatim>\<open>float64\<close>, a string, a \<^verbatim>\<open>[]interface{}\<close> or a
  \<^verbatim>\<open>map[string]interface{}\<close>. Floating point is not modelled: a number is carried as the
  literal that stands for it in JSON text. A map is an association list; where a key is
  bound more than once the last binding is the map's, as when the decoder fills a map from
  an object's members in their order.
\<close>

datatype json =
    JNull
  | JBool bool
  | JNumber string
  | JString string
  | JArray "json list"
  | JObject "(string \<times> json) list"

definition map_index :: "(string \<times> 'v) list \<Rightarrow> string \<Rightarrow> 'v option" where
  "map_index m k = map_of (rev m) k"

section \<open>AudioPlayer directives (audioplayer.go)\<close>

subsection \<open>Data\<close>

text \<open>
  Modelled from the spec: the declaration of \<^verbatim>\<open>DisplayImageObject\<close> is not in the source
  files. The spec calls it an image descriptor with a content description, to which
  image sources are attached elsewhere; the record keeps the content description and
  leaves every other field to the record extension.
\<close>

record DisplayImageObject =
  ContentDescription :: string

record AudioItemMetadata =
  Title :: string
  Subtitle :: string
  Art :: "addr option"
  BackgroundImage :: "addr option"

record AudioItemStream =
  URL :: string
  Token :: string
  ExpectedPreviousToken :: string
  OffsetInMilliseconds :: go_int

record AudioItem =
  Stream :: AudioItemStream
  Metadata :: "addr option"

record AudioPlayerPlayDirective =
  Type :: string
  PlayBehavior :: string
  AudioItem :: AudioItem

record AudioPlayerStopDirective =
  Type :: string

record AudioPlayerClearQueueDirective =
  Type :: string
  ClearBehavior :: string

datatype obj =
    PlayObj AudioPlayerPlayDirective
  | StopObj AudioPlayerStopDirective
  | ClearQueueObj AudioPlayerClearQueueDirective
  | MetadataObj AudioItemMetadata
  | ImageObj DisplayImageObject

text \<open>
  The part of the process the functions act on: the objects allocated so far and the lines
  written by \<^verbatim>\<open>log.Println\<close> to the standard logger, oldest first. A line is kept as
  the operands of the call; how \<^verbatim>\<open>fmt\<close> prints them is not modelled.
\<close>

record world =
  heap :: "obj list"
  logged :: "json list list"

definition obj_at :: "world \<Rightarrow> addr \<Rightarrow> obj option" where
  "obj_at w a = (if a < length (heap w) then Some (heap w ! a) else None)"

definition new :: "obj \<Rightarrow> world \<Rightarrow> addr \<times> world" where
  "new x w = (length (heap w), w\<lparr>heap := heap w @ [x]\<rparr>)"

definition store :: "addr \<Rightarrow> obj \<Rightarrow> world \<Rightarrow> world" where
  "store a x w = w\<lparr>heap := (heap w)[a := x]\<rparr>"

definition log_Println :: "json list \<Rightarrow> world \<Rightarrow> world" where
  "log_Println operands w = w\<lparr>logged := logged w @ [operands]\<rparr>"

text \<open>
  Modelled from the spec: \<^verbatim>\<open>Response\<close> and its method \<^verbatim>\<open>AddDirective\<close> are not in the
  source files. The spec describes the response as a container holding an ordered sequence
  of directive objects, to which a builder appends the directive it has created. The
  sequence holds the directives by pointer; the other fields of the response are left to
  the record extension.
\<close>

record Response =
  Directives :: "addr list"

definition AddDirective :: "addr \<Rightarrow> 'a Response_scheme \<Rightarrow> 'a Response_scheme" where
  "AddDirective directive r = r\<lparr>Directives := Directives r @ [directive]\<rparr>"

subsection \<open>Builders\<close>

text \<open>A method with receiver \<^verbatim>\<open>r *Response\<close> takes the response and returns it updated.\<close>

definition AddAudioPlayerPlayDirective ::
  "string \<Rightarrow> 'a Response_scheme \<Rightarrow> world \<Rightarrow> addr \<times> 'a Response_scheme \<times> world" where
  "AddAudioPlayerPlayDirective playBehavior r w =
     (let (playDirective, w1) =
            new (PlayObj \<lparr>AudioPlayerPlayDirective.Type = ''AudioPlayer.Play'',
                          PlayBehavior = playBehavior,
                          AudioItem = \<lparr>Stream = \<lparr>URL = '''', Token = '''',
                                                  ExpectedPreviousToken = '''',
                                                  OffsetInMilliseconds = 0\<rparr>,
                                       Metadata = None\<rparr>\<rparr>) w
      in (playDirective, AddDirective playDirective r, w1))"

definition SetAudioItemStream ::
  "addr \<Rightarrow> string \<Rightarrow> string \<Rightarrow> string \<Rightarrow> go_int \<Rightarrow> world \<Rightarrow> panic + world" where
  "SetAudioItemStream d url token expectedPreviousToken offsetInMilliseconds w =
     (case obj_at w d of
        Some (PlayObj pd) \<Rightarrow>
          Inr (store d (PlayObj (pd\<lparr>AudioItem := (AudioItem pd)\<lparr>Stream :=
                 \<lparr>URL = url, Token = token,
                  ExpectedPreviousToken = expectedPreviousToken,
                  OffsetInMilliseconds = offsetInMilliseconds\<rparr>\<rparr>\<rparr>)) w)
      | _ \<Rightarrow> Inl NilDereference)"

definition SetAudioItemMetadata ::
  "addr \<Rightarrow> string \<Rightarrow> string \<Rightarrow> world \<Rightarrow> panic + addr \<times> world" where
  "SetAudioItemMetadata d title subtitle w =
     (case obj_at w d of
        Some (PlayObj pd) \<Rightarrow>
          (let (m, w1) = new (MetadataObj \<lparr>Title = title, Subtitle = subtitle,
                                           Art = None, BackgroundImage = None\<rparr>) w
           in Inr (m, store d (PlayObj (pd\<lparr>AudioItem :=
                                  (AudioItem pd)\<lparr>Metadata := Some m\<rparr>\<rparr>)) w1))
      | _ \<Rightarrow> Inl NilDereference)"

definition SetArtImage :: "addr \<Rightarrow> string \<Rightarrow> world \<Rightarrow> panic + addr \<times> world" where
  "SetArtImage m contentDescription w =
     (case obj_at w m of
        Some (MetadataObj md) \<Rightarrow>
          (let (img, w1) = new (ImageObj \<lparr>ContentDescription = contentDescription\<rparr>) w
           in Inr (img, store m (MetadataObj (md\<lparr>Art := Some img\<rparr>)) w1))
      | _ \<Rightarrow> Inl NilDereference)"

definition SetBackgroundImage :: "addr \<Rightarrow> string \<Rightarrow> world \<Rightarrow> panic + addr \<times> world" where
  "SetBackgroundImage m contentDescription w =
     (case obj_at w m of
        Some (MetadataObj md) \<Rightarrow>
          (let (img, w1) = new (ImageObj \<lparr>ContentDescription = contentDescription\<rparr>) w
           in Inr (img, store m (MetadataObj (md\<lparr>BackgroundImage := Some img\<rparr>)) w1))
      | _ \<Rightarrow> Inl NilDereference)"

definition AddAudioPlayerStopDirective ::
  "'a Response_scheme \<Rightarrow> world \<Rightarrow> addr \<times> 'a Response_scheme \<times> world" where
  "AddAudioPlayerStopDirective r w =
     (let (stopDirective, w1) =
            new (StopObj \<lparr>AudioPlayerStopDirective.Type = ''AudioPlayer.Stop''\<rparr>) w
      in (stopDirective, AddDirective stopDirective r, w1))"

definition invalidClearBehaviorStr :: string where
  "invalidClearBehaviorStr = ''Invalid/ Unknown clearBehavior for ClearQueue directive!''"

definition AddAudioPlayerClearQueueDirective ::
  "string \<Rightarrow> 'a Response_scheme \<Rightarrow> world \<Rightarrow> addr \<times> 'a Response_scheme \<times> world" where
  "AddAudioPlayerClearQueueDirective clearBehavior r w =
     (let w0 = (if clearBehavior \<noteq> ''CLEAR_ENQUEUED'' \<and> clearBehavior \<noteq> ''CLEAR_ALL''
                then log_Println [JString invalidClearBehaviorStr] w else w);
          (clearQueueDirective, w1) =
            new (ClearQueueObj \<lparr>AudioPlayerClearQueueDirective.Type = ''AudioPlayer.ClearQueue'',
                                ClearBehavior = clearBehavior\<rparr>) w0
      in (clearQueueDirective, AddDirective clearQueueDirective r, w1))"

text \<open>Reading a directive back through the pointers, as a caller of the builders would.\<close>

definition directive_Type :: "world \<Rightarrow> addr \<Rightarrow> string option" where
  "directive_Type w a =
     (case obj_at w a of
        Some (PlayObj d) \<Rightarrow> Some (AudioPlayerPlayDirective.Type d)
      | Some (StopObj d) \<Rightarrow> Some (AudioPlayerStopDirective.Type d)
      | Some (ClearQueueObj d) \<Rightarrow> Some (AudioPlayerClearQueueDirective.Type d)
      | _ \<Rightarrow> None)"

definition audioItem_metadata :: "world \<Rightarrow> addr \<Rightarrow> AudioItemMetadata option" where
  "audioItem_metadata w d =
     (case obj_at w d of
        Some (PlayObj pd) \<Rightarrow>
          (case Metadata (AudioItem pd) of
             Some m \<Rightarrow> (case obj_at w m of Some (MetadataObj md) \<Rightarrow> Some md | _ \<Rightarrow> None)
           | None \<Rightarrow> None)
      | _ \<Rightarrow> None)"

definition metadata_art :: "world \<Rightarrow> AudioItemMetadata \<Rightarrow> DisplayImageObject option" where
  "metadata_art w md =
     (case Art md of
        Some a \<Rightarrow> (case obj_at w a of Some (ImageObj img) \<Rightarrow> Some img | _ \<Rightarrow> None)
      | None \<Rightarrow> None)"

section \<open>Requests (request.go)\<close>

subsection \<open>Data\<close>

text \<open>
  A typed Go map with string keys: \<open>None\<close> is the nil map, and the association list is
  read as in \<open>map_index\<close>.
\<close>

type_synonym 'v go_map = "(string \<times> 'v) list option"

record Application =
  ApplicationID :: string

record User =
  UserID :: string
  AccessToken :: string

record Session =
  New :: bool
  SessionID :: string
  Attributes :: "json go_map"
  Application :: Application
  User :: User

record Device =
  DeviceID :: string
  SupportedInterfaces :: "json go_map"

record System =
  APIAccessToken :: string
  APIEndpoint :: string
  Application :: Application
  Device :: Device
  User :: User

record AudioPlayer =
  Token :: string
  OffsetInMilliseconds :: go_int
  PlayerActivity :: string

record Context =
  System :: System
  AudioPlayer :: AudioPlayer

record RequestEnvelope =
  Version :: string
  Session :: Session
  Request :: json
  Context :: Context

text \<open>The zero values of the structs, as \<^verbatim>\<open>var x T\<close> or \<^verbatim>\<open>T{}\<close> gives them.\<close>

definition zero_Application :: Application where
  "zero_Application = \<lparr>ApplicationID = ''''\<rparr>"

definition zero_User :: User where
  "zero_User = \<lparr>UserID = '''', AccessToken = ''''\<rparr>"

definition zero_Session :: Session where
  "zero_Session = \<lparr>New = False, SessionID = '''', Attributes = None,
                    Session.Application = zero_Application, Session.User = zero_User\<rparr>"

definition zero_Device :: Device where
  "zero_Device = \<lparr>DeviceID = '''', SupportedInterfaces = None\<rparr>"

definition zero_System :: System where
  "zero_System = \<lparr>APIAccessToken = '''', APIEndpoint = '''',
                   System.Application = zero_Application, Device = zero_Device,
                   System.User = zero_User\<rparr>"

definition zero_AudioPlayer :: AudioPlayer where
  "zero_AudioPlayer = \<lparr>AudioPlayer.Token = '''', AudioPlayer.OffsetInMilliseconds = 0,
                        PlayerActivity = ''''\<rparr>"

definition zero_Context :: Context where
  "zero_Context = \<lparr>System = zero_System, AudioPlayer = zero_AudioPlayer\<rparr>"

text \<open>An envelope around a given payload, for the examples.\<close>

definition envelope_of :: "json \<Rightarrow> RequestEnvelope" where
  "envelope_of payload = \<lparr>Version = ''1.0'', Session = zero_Session, Request = payload,
                           Context = zero_Context\<rparr>"

subsection \<open>Package time, as far as verifyTimestamp uses it\<close>

text \<open>
  A \<^verbatim>\<open>Time\<close> is the instant it denotes, in nanoseconds since January 1 of year 1,
  00:00:00 UTC, so the zero \<^verbatim>\<open>Time\<close> is 0. A \<^verbatim>\<open>Duration\<close> is a number of nanoseconds in
  an \<^verbatim>\<open>int64\<close>. \<^verbatim>\<open>Sub\<close> returns the difference, or the least or greatest duration where the
  difference does not fit. A timestamp read from a string has no monotonic clock reading,
  so \<^verbatim>\<open>time.Since\<close> is \<^verbatim>\<open>time.Now().Sub\<close>; the reading of the clock is the parameter \<open>now\<close>.
\<close>

type_synonym Time = int

type_synonym Duration = int

definition Second :: Duration where
  "Second = 1000000000"

definition minDuration :: Duration where
  "minDuration = - (2 ^ 63)"

definition maxDuration :: Duration where
  "maxDuration = 2 ^ 63 - 1"

definition Sub :: "Time \<Rightarrow> Time \<Rightarrow> Duration" where
  "Sub t u =
     (let d = t - u
      in if minDuration \<le> d \<and> d \<le> maxDuration then d
         else if t < u then minDuration
         else maxDuration)"

definition Since :: "Time \<Rightarrow> Time \<Rightarrow> Duration" where
  "Since now t = Sub now t"

text \<open>
  \<^verbatim>\<open>Seconds\<close> is \<^verbatim>\<open>float64(d / Second) + float64(d % Second) / 1e9\<close>, with Go's
  truncating division and remainder. It is computed here in the reals. The only use made
  of it is the comparison with \<^verbatim>\<open>(30 * Second).Seconds()\<close>, that is with 30, and rounding
  to \<^verbatim>\<open>float64\<close> does not move a sum of a whole number of seconds below \<open>2 ^ 53\<close> and a
  fraction of at most \<open>0.999999999\<close> across a whole number.
\<close>

definition Seconds :: "Duration \<Rightarrow> real" where
  "Seconds d = real_of_int (d sdiv Second) + real_of_int (d smod Second) / 1000000000"

subsection \<open>verifyTimestamp\<close>

text \<open>
  \<^verbatim>\<open>time.Parse\<close> is the library's, and a parameter here: \<open>parse layout value\<close> is the
  \<^verbatim>\<open>Time\<close> read, or \<open>None\<close> where \<^verbatim>\<open>time.Parse\<close> returns an error (and with it the zero
  \<^verbatim>\<open>Time\<close>). The two type assertions of the first line panic when the payload is not a
  \<^verbatim>\<open>map[string]interface{}\<close> and when the value found under \<open>timestamp\<close> (nil when the key is
  missing) is not a string.
\<close>

definition verifyTimestamp ::
  "(string \<Rightarrow> string \<Rightarrow> Time option) \<Rightarrow> Time \<Rightarrow> 'a RequestEnvelope_scheme \<Rightarrow> world
     \<Rightarrow> panic + bool \<times> world" where
  "verifyTimestamp parse now requestEnvelope w =
     (case Request requestEnvelope of
        JObject m \<Rightarrow>
          (case map_index m ''timestamp'' of
             Some (JString timestampStr) \<Rightarrow>
               (let (requestTimestamp, w1) =
                      (case parse ''2006-01-02T15:04:05Z'' timestampStr of
                         Some t \<Rightarrow> (t, w)
                       | None \<Rightarrow>
                           (0, log_Println
                                 [JString ''Error parsing request timestamp with value '',
                                  JString timestampStr, Request requestEnvelope] w))
                in Inr (if Seconds (Since now requestTimestamp) < Seconds (30 * Second)
                        then True else False, w1))
           | _ \<Rightarrow> Inl InterfaceConversion)
      | _ \<Rightarrow> Inl InterfaceConversion)"

text \<open>
  \<^verbatim>\<open>time.Parse\<close> at the layout of the source, for use where a concrete parser is wanted:
  a four-digit year, two-digit month and day, an hour of one or two digits, two-digit
  minute and second, an optional fraction of a second after a period or comma, and the
  letter Z; the fields are range-checked and the day is checked against the month.
\<close>

definition isDigit :: "char \<Rightarrow> bool" where
  "isDigit c = (CHR ''0'' \<le> c \<and> c \<le> CHR ''9'')"

definition digit :: "char \<Rightarrow> nat" where
  "digit c = of_char c - 48"

definition decimal :: "string \<Rightarrow> nat option" where
  "decimal s = (if s \<noteq> [] \<and> list_all isDigit s
             then Some (foldl (\<lambda>n c. 10 * n + digit c) 0 s) else None)"

definition getnum :: "string \<Rightarrow> bool \<Rightarrow> (nat \<times> string) option" where
  "getnum s fixed =
     (case s of
        [] \<Rightarrow> None
      | c0 # s1 \<Rightarrow>
          if \<not> isDigit c0 then None
          else (case s1 of
                  [] \<Rightarrow> if fixed then None else Some (digit c0, s1)
                | c1 # s2 \<Rightarrow>
                    if \<not> isDigit c1 then (if fixed then None else Some (digit c0, s1))
                    else Some (digit c0 * 10 + digit c1, s2)))"

definition skip :: "string \<Rightarrow> string \<Rightarrow> string option" where
  "skip prefix s =
     (if take (length prefix) s = prefix then Some (drop (length prefix) s) else None)"

definition isLeap :: "nat \<Rightarrow> bool" where
  "isLeap year = (year mod 4 = 0 \<and> (year mod 100 \<noteq> 0 \<or> year mod 400 = 0))"

definition daysBefore :: "nat list" where
  "daysBefore = [0, 31, 59, 90, 120, 151, 181, 212, 243, 273, 304, 334, 365]"

definition daysIn :: "nat \<Rightarrow> nat \<Rightarrow> nat" where
  "daysIn month year =
     (if month = 2 \<and> isLeap year then 29
      else daysBefore ! month - daysBefore ! (month - 1))"

definition Date :: "nat \<Rightarrow> nat \<Rightarrow> nat \<Rightarrow> nat \<Rightarrow> nat \<Rightarrow> nat \<Rightarrow> nat \<Rightarrow> Time" where
  "Date year month day hour minute sec nsec =
     (let y = int year - 1;
          d = 365 * y + y div 4 - y div 100 + y div 400
              + int (daysBefore ! (month - 1))
              + (if isLeap year \<and> 3 \<le> month then 1 else 0)
              + (int day - 1)
      in (d * 86400 + int hour * 3600 + int minute * 60 + int sec) * 1000000000 + int nsec)"

definition parseFraction :: "string \<Rightarrow> (nat \<times> string) option" where
  "parseFraction s =
     (if 2 \<le> length s \<and> (hd s = CHR ''.'' \<or> hd s = CHR '','') \<and> isDigit (s ! 1)
      then (let ds = takeWhile isDigit (tl s); ds9 = take 9 ds
            in map_option (\<lambda>n. (n * 10 ^ (9 - length ds9), drop (Suc (length ds)) s))
                          (decimal ds9))
      else Some (0, s))"

definition time_Parse :: "string \<Rightarrow> string \<Rightarrow> Time option" where
  "time_Parse layout v0 =
     (if layout \<noteq> ''2006-01-02T15:04:05Z'' then None
      else do {
        year \<leftarrow> (if 4 \<le> length v0 then decimal (take 4 v0) else None);
        v1 \<leftarrow> skip ''-'' (drop 4 v0);
        (month, v2) \<leftarrow> getnum v1 True;
        v3 \<leftarrow> skip ''-'' v2;
        (day, v4) \<leftarrow> getnum v3 True;
        v5 \<leftarrow> skip ''T'' v4;
        (hour, v6) \<leftarrow> getnum v5 False;
        v7 \<leftarrow> skip '':'' v6;
        (minute, v8) \<leftarrow> getnum v7 True;
        v9 \<leftarrow> skip '':'' v8;
        (sec, v10) \<leftarrow> getnum v9 True;
        (nsec, v11) \<leftarrow> (if sec < 60 then parseFraction v10 else None);
        v12 \<leftarrow> skip ''Z'' v11;
        if v12 = [] \<and> 1 \<le> month \<and> month \<le> 12 \<and> hour < 24 \<and> minute < 60
           \<and> 1 \<le> day \<and> day \<le> daysIn month year
        then Some (Date year month day hour minute sec nsec)
        else None
      })"

subsection \<open>Package encoding/json, as far as the source uses it\<close>

text \<open>
  The text between \<^verbatim>\<open>json.Marshal\<close> and \<^verbatim>\<open>json.Unmarshal\<close> is modelled by its tree: what
  the encoder writes is what the decoder reads, member by member and in the same order.
  What the encoder does to the values is modelled: a string is coerced to valid UTF-8,
  each byte that does not start a valid encoding being replaced by U+FFFD, and the keys
  of a map are written in byte order.
\<close>

definition continuation :: "char \<Rightarrow> bool" where
  "continuation c = (CHR 0x80 \<le> c \<and> c \<le> CHR 0xBF)"

text \<open>
  The length of a multi-byte encoding by its first byte, with the range its second byte
  must lie in (the table of \<^verbatim>\<open>unicode/utf8\<close>: no overlong forms, no surrogates, nothing
  above U+10FFFF).
\<close>

definition acceptRange :: "char \<Rightarrow> (nat \<times> char \<times> char) option" where
  "acceptRange c =
     (if CHR 0xC2 \<le> c \<and> c \<le> CHR 0xDF then Some (2, CHR 0x80, CHR 0xBF)
      else if c = CHR 0xE0 then Some (3, CHR 0xA0, CHR 0xBF)
      else if CHR 0xE1 \<le> c \<and> c \<le> CHR 0xEC then Some (3, CHR 0x80, CHR 0xBF)
      else if c = CHR 0xED then Some (3, CHR 0x80, CHR 0x9F)
      else if CHR 0xEE \<le> c \<and> c \<le> CHR 0xEF then Some (3, CHR 0x80, CHR 0xBF)
      else if c = CHR 0xF0 then Some (4, CHR 0x90, CHR 0xBF)
      else if CHR 0xF1 \<le> c \<and> c \<le> CHR 0xF3 then Some (4, CHR 0x80, CHR 0xBF)
      else if c = CHR 0xF4 then Some (4, CHR 0x80, CHR 0x8F)
      else None)"

text \<open>The size of the encoding at the head of a string; 0 where the head is invalid.\<close>

definition runeSize :: "string \<Rightarrow> nat" where
  "runeSize s =
     (case s of
        [] \<Rightarrow> 0
      | c # r \<Rightarrow>
          if c < CHR 0x80 then 1
          else (case acceptRange c of
                  None \<Rightarrow> 0
                | Some (n, lo, hi) \<Rightarrow>
                    if n - 1 \<le> length r \<and> lo \<le> hd r \<and> hd r \<le> hi
                       \<and> list_all continuation (take (n - 2) (tl r))
                    then n else 0))"

fun ValidString :: "string \<Rightarrow> bool" where
  "ValidString [] = True"
| "ValidString (c # r) = (runeSize (c # r) \<noteq> 0 \<and> ValidString (drop (runeSize (c # r) - 1) r))"

fun toValidUTF8 :: "string \<Rightarrow> string" where
  "toValidUTF8 [] = []"
| "toValidUTF8 (c # r) =
     (if runeSize (c # r) = 0 then [CHR 0xEF, CHR 0xBF, CHR 0xBD] @ toValidUTF8 r
      else c # take (runeSize (c # r) - 1) r @ toValidUTF8 (drop (runeSize (c # r) - 1) r))"

text \<open>
  The members of a Go map as the encoder writes them: one per key, sorted by key. Where
  the association list binds a key more than once, the last binding is the map's.
\<close>

fun last_bindings :: "(string \<times> 'v) list \<Rightarrow> (string \<times> 'v) list" where
  "last_bindings [] = []"
| "last_bindings ((k, v) # m) =
     (if k \<in> fst ` set m then last_bindings m else (k, v) # last_bindings m)"

text \<open>
  \<^verbatim>\<open>json.Marshal\<close> of a value of the kinds \<open>json\<close> holds. It has no error there (it has one
  for channels, functions, cycles and non-finite floats, which a decoded payload does not
  hold), and the source drops the error in any case.
\<close>

fun Marshal :: "json \<Rightarrow> json" where
  "Marshal JNull = JNull"
| "Marshal (JBool b) = JBool b"
| "Marshal (JNumber n) = JNumber n"
| "Marshal (JString s) = JString (toValidUTF8 s)"
| "Marshal (JArray xs) = JArray (map Marshal xs)"
| "Marshal (JObject m) =
     JObject (map (\<lambda>(k, v). (toValidUTF8 k, v))
               (sort_key fst (last_bindings (map (\<lambda>(k, v). (k, Marshal v)) m))))"

text \<open>
  Decoding. A value that does not fit the Go type it is decoded into is skipped with an
  \<^verbatim>\<open>UnmarshalTypeError\<close>, of which the description of the JSON value is kept; decoding goes
  on, and the first such error is the one returned. \<open>null\<close> fits every type: it clears a
  pointer, a map and an interface and leaves anything else as it is.
\<close>

datatype json_error = UnmarshalTypeError string

type_synonym 'a decoder = "json \<Rightarrow> 'a \<Rightarrow> 'a \<times> json_error option"

definition saveError :: "json_error option \<Rightarrow> json_error option \<Rightarrow> json_error option" where
  "saveError savedError err = (case savedError of None \<Rightarrow> err | Some e \<Rightarrow> Some e)"

fun describe :: "json \<Rightarrow> string" where
  "describe JNull = ''null''"
| "describe (JBool b) = ''bool''"
| "describe (JNumber n) = ''number''"
| "describe (JString s) = ''string''"
| "describe (JArray xs) = ''array''"
| "describe (JObject m) = ''object''"

definition decode_string :: "string decoder" where
  "decode_string j v =
     (case j of JString s \<Rightarrow> (s, None) | JNull \<Rightarrow> (v, None)
      | _ \<Rightarrow> (v, Some (UnmarshalTypeError (describe j))))"

definition decode_bool :: "bool decoder" where
  "decode_bool j v =
     (case j of JBool b \<Rightarrow> (b, None) | JNull \<Rightarrow> (v, None)
      | _ \<Rightarrow> (v, Some (UnmarshalTypeError (describe j))))"

text \<open>
  \<^verbatim>\<open>strconv.ParseInt(s, 10, 64)\<close>: an optional sign and decimal digits, within \<^verbatim>\<open>int64\<close>.
\<close>

definition ParseInt :: "string \<Rightarrow> int option" where
  "ParseInt s =
     (let neg = (s \<noteq> [] \<and> hd s = CHR ''-'');
          ds = (if s \<noteq> [] \<and> (hd s = CHR ''+'' \<or> hd s = CHR ''-'') then tl s else s)
      in case decimal ds of
           None \<Rightarrow> None
         | Some un \<Rightarrow>
             if neg then (if 2 ^ 63 < un then None else Some (- int un))
             else (if 2 ^ 63 \<le> un then None else Some (int un)))"

definition decode_int :: "go_int decoder" where
  "decode_int j v =
     (case j of
        JNumber s \<Rightarrow>
          (case ParseInt s of
             Some n \<Rightarrow> (word_of_int n, None)
           | None \<Rightarrow> (v, Some (UnmarshalTypeError (''number '' @ s))))
      | JNull \<Rightarrow> (v, None)
      | _ \<Rightarrow> (v, Some (UnmarshalTypeError (describe j))))"

definition decode_interface :: "json decoder" where
  "decode_interface j v = (j, None)"

text \<open>
  Into a map: a nil map is made first, each member is decoded into a new element, which
  is stored under its key whether or not it decoded without error, and the entries the
  map held stay.
\<close>

definition decode_map :: "'v decoder \<Rightarrow> 'v \<Rightarrow> 'v go_map decoder" where
  "decode_map elem zero j m =
     (case j of
        JNull \<Rightarrow> (None, None)
      | JObject kvs \<Rightarrow>
          (let (m1, e1) =
                 foldl (\<lambda>(acc, err) (k, jv).
                          let (x, e) = elem jv zero in (acc @ [(k, x)], saveError err e))
                       (case m of None \<Rightarrow> [] | Some l \<Rightarrow> l, None) kvs
           in (Some m1, e1))
      | _ \<Rightarrow> (m, Some (UnmarshalTypeError (describe j))))"

text \<open>
  Into a struct. A field is found by the exact name of the member, else by the name
  folded: ASCII letters to upper case, and the two letters outside ASCII that fold to
  ASCII ones, the Kelvin sign (E2 84 AA) to K and the long s (C5 BF) to S. Members that
  name no field are skipped. The fields of an embedded struct are among the fields of
  the struct that embeds it.
\<close>

definition toUpper :: "char \<Rightarrow> char" where
  "toUpper c =
     (case map_of (zip ''abcdefghijklmnopqrstuvwxyz'' ''ABCDEFGHIJKLMNOPQRSTUVWXYZ'') c of
        Some u \<Rightarrow> u | None \<Rightarrow> c)"

fun foldName :: "string \<Rightarrow> string" where
  "foldName (c0 # c1 # c2 # s) =
     (if c0 = CHR 0xE2 \<and> c1 = CHR 0x84 \<and> c2 = CHR 0xAA then CHR ''K'' # foldName s
      else if c0 = CHR 0xC5 \<and> c1 = CHR 0xBF then CHR ''S'' # foldName (c2 # s)
      else toUpper c0 # foldName (c1 # c2 # s))"
| "foldName [c0, c1] =
     (if c0 = CHR 0xC5 \<and> c1 = CHR 0xBF then ''S'' else [toUpper c0, toUpper c1])"
| "foldName [c0] = [toUpper c0]"
| "foldName [] = []"

definition lookup_field :: "(string \<times> 'd) list \<Rightarrow> string \<Rightarrow> 'd option" where
  "lookup_field fs key =
     (case find (\<lambda>f. fst f = key) fs of
        Some f \<Rightarrow> Some (snd f)
      | None \<Rightarrow> map_option snd (find (\<lambda>f. foldName (fst f) = foldName key) fs))"

definition decode_object :: "(string \<times> 's decoder) list \<Rightarrow> (string \<times> json) list \<Rightarrow> 's
     \<Rightarrow> 's \<times> json_error option" where
  "decode_object fs kvs v =
     foldl (\<lambda>(v1, err) (key, jv).
              case lookup_field fs key of
                None \<Rightarrow> (v1, err)
              | Some d \<Rightarrow> (let (v2, e) = d jv v1 in (v2, saveError err e)))
           (v, None) kvs"

definition decode_struct :: "(string \<times> 's decoder) list \<Rightarrow> 's decoder" where
  "decode_struct fs j v =
     (case j of
        JNull \<Rightarrow> (v, None)
      | JObject kvs \<Rightarrow> decode_object fs kvs v
      | _ \<Rightarrow> (v, Some (UnmarshalTypeError (describe j))))"

text \<open>A field of a struct, by its JSON name, its selector and update, and its type's decoder.\<close>

definition struct_field ::
  "string \<Rightarrow> ('s \<Rightarrow> 'a) \<Rightarrow> (('a \<Rightarrow> 'a) \<Rightarrow> 's \<Rightarrow> 's) \<Rightarrow> 'a decoder \<Rightarrow> string \<times> 's decoder" where
  "struct_field n sel upd d = (n, \<lambda>j s. let (x, e) = d j (sel s) in (upd (\<lambda>_. x) s, e))"

text \<open>
  The shape of a Go type, and the JSON values that \<^verbatim>\<open>json.Unmarshal\<close> takes into it without
  an \<^verbatim>\<open>UnmarshalTypeError\<close>. The decoder checks the kind of the values it meets and nothing
  else: \<open>null\<close> is taken by every type, a member that names no field is passed over, and
  no member has to be there, so the empty object is taken by every struct. \<open>matches\<close> is
  therefore no test that a payload has the members of a request variant.
\<close>

datatype go_type =
    T_string
  | T_bool
  | T_int
  | T_interface
  | T_map go_type
  | T_struct "(string \<times> go_type) list"
  | T_pointer go_type

fun matches :: "go_type \<Rightarrow> json \<Rightarrow> bool" where
  "matches T_string j = (case j of JNull \<Rightarrow> True | JString s \<Rightarrow> True | _ \<Rightarrow> False)"
| "matches T_bool j = (case j of JNull \<Rightarrow> True | JBool b \<Rightarrow> True | _ \<Rightarrow> False)"
| "matches T_int j =
     (case j of JNull \<Rightarrow> True | JNumber s \<Rightarrow> ParseInt s \<noteq> None | _ \<Rightarrow> False)"
| "matches T_interface j = True"
| "matches (T_map t) j =
     (case j of JNull \<Rightarrow> True
      | JObject kvs \<Rightarrow> list_all (\<lambda>(k, jv). matches t jv) kvs
      | _ \<Rightarrow> False)"
| "matches (T_struct fs) j =
     (case j of JNull \<Rightarrow> True
      | JObject kvs \<Rightarrow>
          list_all (\<lambda>(k, jv). case lookup_field fs k of None \<Rightarrow> True
                                | Some t \<Rightarrow> matches t jv) kvs
      | _ \<Rightarrow> False)"
| "matches (T_pointer t) j = matches t j"

text \<open>
  A decoder agrees with a shape when it reports an error on exactly the values that do
  not match the shape, whatever it decodes into; the fields of a struct agree with the
  members of a shape when they have the same names, in the same order, and agree one by
  one.
\<close>

definition sound :: "'a decoder \<Rightarrow> go_type \<Rightarrow> bool" where
  "sound d t = (\<forall>j v. (snd (d j v) = None) = matches t j)"

definition field_rel :: "(string \<times> 's decoder) list \<Rightarrow> (string \<times> go_type) list \<Rightarrow> bool" where
  "field_rel fs tfs = list_all2 (\<lambda>f ft. fst f = fst ft \<and> sound (snd f) (snd ft)) fs tfs"

subsection \<open>Request variants\<close>

text \<open>
  A pointer to a \<^verbatim>\<open>Session\<close> or a \<^verbatim>\<open>Context\<close> is nil (\<open>None\<close>), the address of the field of
  that type inside the request envelope (\<^verbatim>\<open>&requestEnvelope.Session\<close>: what is written
  through it is written into the envelope), or the address of an object the decoder has
  allocated, which nothing else refers to and which is therefore kept with the pointer.
\<close>

datatype 'a ref = EnvelopeField | Allocated 'a

record CommonRequest =
  Type :: string
  RequestID :: string
  Timestamp :: string
  Locale :: string
  Session :: "Session ref option"
  Context :: "Context ref option"

type_synonym LaunchRequest = CommonRequest

record IntentSlot =
  Name :: string
  Value :: string
  ConfirmationStatus :: string
  Resolutions :: json

record Intent =
  Name :: string
  Slots :: "IntentSlot go_map"
  ConfirmationStatus :: string

record IntentRequest = CommonRequest +
  Intent :: Intent
  DialogState :: string

record ErrorStruct =
  Type :: string
  Message :: string

record SessionEndedRequest = CommonRequest +
  Reason :: string
  Error :: ErrorStruct

record CauseStruct =
  RequestID :: string

record SystemExceptionEncounteredRequest = CommonRequest +
  Error :: ErrorStruct
  Cause :: CauseStruct

record AudioPlayerRequest = CommonRequest +
  Token :: string
  OffsetInMilliseconds :: go_int

record PlaybackState =
  Token :: string
  OffsetInMilliseconds :: go_int
  PlayerActivity :: string

record AudioPlayerPlaybackFailedRequest = AudioPlayerRequest +
  Error :: ErrorStruct
  CurrentPlaybackState :: PlaybackState

definition zero_IntentSlot :: IntentSlot where
  "zero_IntentSlot = \<lparr>IntentSlot.Name = '''', Value = '''',
                       IntentSlot.ConfirmationStatus = '''', Resolutions = JNull\<rparr>"

definition zero_CommonRequest :: CommonRequest where
  "zero_CommonRequest = \<lparr>CommonRequest.Type = '''', CommonRequest.RequestID = '''',
                          Timestamp = '''', Locale = '''',
                          CommonRequest.Session = None, CommonRequest.Context = None\<rparr>"

definition zero_Intent :: Intent where
  "zero_Intent = \<lparr>Intent.Name = '''', Slots = None, Intent.ConfirmationStatus = ''''\<rparr>"

definition zero_IntentRequest :: IntentRequest where
  "zero_IntentRequest = \<lparr>CommonRequest.Type = '''', CommonRequest.RequestID = '''',
                          Timestamp = '''', Locale = '''',
                          CommonRequest.Session = None, CommonRequest.Context = None,
                          Intent = zero_Intent, DialogState = ''''\<rparr>"

text \<open>
  The value passed as \<^verbatim>\<open>requestObj interface{}\<close>: a pointer to one of the request structs,
  or a value that is no \<^verbatim>\<open>requestEnvelopeDataProvider\<close> (the nil interface, a struct passed
  by value, any other type).
\<close>

datatype requestObj =
    ToLaunchRequest LaunchRequest
  | ToIntentRequest IntentRequest
  | ToSessionEndedRequest SessionEndedRequest
  | ToSystemExceptionEncounteredRequest SystemExceptionEncounteredRequest
  | ToAudioPlayerRequest AudioPlayerRequest
  | ToAudioPlayerPlaybackFailedRequest AudioPlayerPlaybackFailedRequest
  | NotAProvider

subsection \<open>The fields of the structs, with their JSON names\<close>

definition Application_fields :: "(string \<times> Application decoder) list" where
  "Application_fields =
     [struct_field ''applicationId'' ApplicationID ApplicationID_update decode_string]"

definition User_fields :: "(string \<times> User decoder) list" where
  "User_fields =
     [struct_field ''userId'' UserID UserID_update decode_string,
      struct_field ''accessToken'' AccessToken AccessToken_update decode_string]"

definition Session_fields :: "(string \<times> Session decoder) list" where
  "Session_fields =
     [struct_field ''new'' New New_update decode_bool,
      struct_field ''sessionId'' SessionID SessionID_update decode_string,
      struct_field ''attributes'' Attributes Attributes_update
        (decode_map decode_interface JNull),
      struct_field ''application'' Session.Application Session.Application_update
        (decode_struct Application_fields),
      struct_field ''user'' Session.User Session.User_update (decode_struct User_fields)]"

definition Device_fields :: "(string \<times> Device decoder) list" where
  "Device_fields =
     [struct_field ''deviceId'' DeviceID DeviceID_update decode_string,
      struct_field ''supportedInterfaces'' SupportedInterfaces SupportedInterfaces_update
        (decode_map decode_interface JNull)]"

definition System_fields :: "(string \<times> System decoder) list" where
  "System_fields =
     [struct_field ''apiAccessToken'' APIAccessToken APIAccessToken_update decode_string,
      struct_field ''apiEndpoint'' APIEndpoint APIEndpoint_update decode_string,
      struct_field ''application'' System.Application System.Application_update
        (decode_struct Application_fields),
      struct_field ''device'' Device Device_update (decode_struct Device_fields),
      struct_field ''user'' System.User System.User_update (decode_struct User_fields)]"

definition AudioPlayer_fields :: "(string \<times> AudioPlayer decoder) list" where
  "AudioPlayer_fields =
     [struct_field ''token'' AudioPlayer.Token AudioPlayer.Token_update decode_string,
      struct_field ''offsetInMilliseconds'' AudioPlayer.OffsetInMilliseconds
        AudioPlayer.OffsetInMilliseconds_update decode_int,
      struct_field ''playerActivity'' AudioPlayer.PlayerActivity
        AudioPlayer.PlayerActivity_update decode_string]"

definition Context_fields :: "(string \<times> Context decoder) list" where
  "Context_fields =
     [struct_field ''System'' System System_update (decode_struct System_fields),
      struct_field ''audioPlayer'' AudioPlayer AudioPlayer_update
        (decode_struct AudioPlayer_fields)]"

definition IntentSlot_fields :: "(string \<times> IntentSlot decoder) list" where
  "IntentSlot_fields =
     [struct_field ''name'' IntentSlot.Name IntentSlot.Name_update decode_string,
      struct_field ''value'' Value Value_update decode_string,
      struct_field ''confirmationStatus'' IntentSlot.ConfirmationStatus
        IntentSlot.ConfirmationStatus_update decode_string,
      struct_field ''resolutions'' Resolutions Resolutions_update decode_interface]"

definition Intent_fields :: "(string \<times> Intent decoder) list" where
  "Intent_fields =
     [struct_field ''name'' Intent.Name Intent.Name_update decode_string,
      struct_field ''slots'' Slots Slots_update
        (decode_map (decode_struct IntentSlot_fields) zero_IntentSlot),
      struct_field ''confirmationStatus'' Intent.ConfirmationStatus
        Intent.ConfirmationStatus_update decode_string]"

definition ErrorStruct_fields :: "(string \<times> ErrorStruct decoder) list" where
  "ErrorStruct_fields =
     [struct_field ''type'' ErrorStruct.Type ErrorStruct.Type_update decode_string,
      struct_field ''message'' Message Message_update decode_string]"

definition CauseStruct_fields :: "(string \<times> CauseStruct decoder) list" where
  "CauseStruct_fields =
     [struct_field ''requestId'' CauseStruct.RequestID CauseStruct.RequestID_update
        decode_string]"

definition PlaybackState_fields :: "(string \<times> PlaybackState decoder) list" where
  "PlaybackState_fields =
     [struct_field ''token'' PlaybackState.Token PlaybackState.Token_update decode_string,
      struct_field ''offsetInMilliseconds'' PlaybackState.OffsetInMilliseconds
        PlaybackState.OffsetInMilliseconds_update decode_int,
      struct_field ''playerActivity'' PlaybackState.PlayerActivity
        PlaybackState.PlayerActivity_update decode_string]"

text \<open>
  The struct a request is decoded into holds the two pointers, so its decoder acts on the
  struct together with the envelope the pointers may lead into. A pointer field decodes
  \<open>null\<close> to nil; any other value is decoded into what the pointer refers to, after a new
  zero value has been allocated for a nil pointer. \<^verbatim>\<open>Session\<close> and \<^verbatim>\<open>Context\<close> carry no tag, so
  their JSON names are their Go names.
\<close>

definition on_target :: "string \<times> 'r decoder \<Rightarrow> string \<times> ('e \<times> 'r) decoder" where
  "on_target f = (fst f, \<lambda>j (env, r). let (r1, e) = snd f j r in ((env, r1), e))"

definition pointer_field ::
  "string \<Rightarrow> ('r \<Rightarrow> 'a ref option) \<Rightarrow> (('a ref option \<Rightarrow> 'a ref option) \<Rightarrow> 'r \<Rightarrow> 'r)
     \<Rightarrow> ('e \<Rightarrow> 'a) \<Rightarrow> (('a \<Rightarrow> 'a) \<Rightarrow> 'e \<Rightarrow> 'e) \<Rightarrow> 'a decoder \<Rightarrow> 'a
     \<Rightarrow> string \<times> ('e \<times> 'r) decoder" where
  "pointer_field n sel upd env_sel env_upd d zero =
     (n, \<lambda>j (env, r).
           case j of
             JNull \<Rightarrow> ((env, upd (\<lambda>_. None) r), None)
           | _ \<Rightarrow>
               (case sel r of
                  None \<Rightarrow>
                    (let (x, e) = d j zero in ((env, upd (\<lambda>_. Some (Allocated x)) r), e))
                | Some EnvelopeField \<Rightarrow>
                    (let (x, e) = d j (env_sel env) in ((env_upd (\<lambda>_. x) env, r), e))
                | Some (Allocated x0) \<Rightarrow>
                    (let (x, e) = d j x0 in ((env, upd (\<lambda>_. Some (Allocated x)) r), e))))"

definition CommonRequest_fields ::
  "(string \<times> (RequestEnvelope \<times> 'a CommonRequest_scheme) decoder) list" where
  "CommonRequest_fields =
     [on_target (struct_field ''type'' CommonRequest.Type CommonRequest.Type_update
                   decode_string),
      on_target (struct_field ''requestId'' CommonRequest.RequestID
                   CommonRequest.RequestID_update decode_string),
      on_target (struct_field ''timestamp'' Timestamp Timestamp_update decode_string),
      on_target (struct_field ''locale'' Locale Locale_update decode_string),
      pointer_field ''Session'' CommonRequest.Session CommonRequest.Session_update
        RequestEnvelope.Session RequestEnvelope.Session_update
        (decode_struct Session_fields) zero_Session,
      pointer_field ''Context'' CommonRequest.Context CommonRequest.Context_update
        RequestEnvelope.Context RequestEnvelope.Context_update
        (decode_struct Context_fields) zero_Context]"

definition LaunchRequest_fields ::
  "(string \<times> (RequestEnvelope \<times> LaunchRequest) decoder) list" where
  "LaunchRequest_fields = CommonRequest_fields"

definition IntentRequest_fields ::
  "(string \<times> (RequestEnvelope \<times> IntentRequest) decoder) list" where
  "IntentRequest_fields = CommonRequest_fields @
     [on_target (struct_field ''intent'' Intent Intent_update (decode_struct Intent_fields)),
      on_target (struct_field ''dialogState'' DialogState DialogState_update decode_string)]"

definition SessionEndedRequest_fields ::
  "(string \<times> (RequestEnvelope \<times> SessionEndedRequest) decoder) list" where
  "SessionEndedRequest_fields = CommonRequest_fields @
     [on_target (struct_field ''reason'' Reason Reason_update decode_string),
      on_target (struct_field ''error'' SessionEndedRequest.Error
                   SessionEndedRequest.Error_update (decode_struct ErrorStruct_fields))]"

definition SystemExceptionEncounteredRequest_fields ::
  "(string \<times> (RequestEnvelope \<times> SystemExceptionEncounteredRequest) decoder) list" where
  "SystemExceptionEncounteredRequest_fields = CommonRequest_fields @
     [on_target (struct_field ''error'' SystemExceptionEncounteredRequest.Error
                   SystemExceptionEncounteredRequest.Error_update
                   (decode_struct ErrorStruct_fields)),
      on_target (struct_field ''cause'' Cause Cause_update
                   (decode_struct CauseStruct_fields))]"

definition AudioPlayerRequest_fields ::
  "(string \<times> (RequestEnvelope \<times> 'a AudioPlayerRequest_scheme) decoder) list" where
  "AudioPlayerRequest_fields = CommonRequest_fields @
     [on_target (struct_field ''token'' AudioPlayerRequest.Token
                   AudioPlayerRequest.Token_update decode_string),
      on_target (struct_field ''offsetInMilliseconds''
                   AudioPlayerRequest.OffsetInMilliseconds
                   AudioPlayerRequest.OffsetInMilliseconds_update decode_int)]"

definition AudioPlayerPlaybackFailedRequest_fields ::
  "(string \<times> (RequestEnvelope \<times> AudioPlayerPlaybackFailedRequest) decoder) list" where
  "AudioPlayerPlaybackFailedRequest_fields = AudioPlayerRequest_fields @
     [on_target (struct_field ''error'' AudioPlayerPlaybackFailedRequest.Error
                   AudioPlayerPlaybackFailedRequest.Error_update
                   (decode_struct ErrorStruct_fields)),
      on_target (struct_field ''currentPlaybackState'' CurrentPlaybackState
                   CurrentPlaybackState_update (decode_struct PlaybackState_fields))]"

subsection \<open>The shapes of the structs\<close>

definition Application_T :: go_type where
  "Application_T = T_struct [(''applicationId'', T_string)]"

definition User_T :: go_type where
  "User_T = T_struct [(''userId'', T_string), (''accessToken'', T_string)]"

definition Session_T :: go_type where
  "Session_T = T_struct
     [(''new'', T_bool), (''sessionId'', T_string), (''attributes'', T_map T_interface),
      (''application'', Application_T), (''user'', User_T)]"

definition Device_T :: go_type where
  "Device_T = T_struct
     [(''deviceId'', T_string), (''supportedInterfaces'', T_map T_interface)]"

definition System_T :: go_type where
  "System_T = T_struct
     [(''apiAccessToken'', T_string), (''apiEndpoint'', T_string),
      (''application'', Application_T), (''device'', Device_T), (''user'', User_T)]"

definition AudioPlayer_T :: go_type where
  "AudioPlayer_T = T_struct
     [(''token'', T_string), (''offsetInMilliseconds'', T_int),
      (''playerActivity'', T_string)]"

definition Context_T :: go_type where
  "Context_T = T_struct [(''System'', System_T), (''audioPlayer'', AudioPlayer_T)]"

definition IntentSlot_T :: go_type where
  "IntentSlot_T = T_struct
     [(''name'', T_string), (''value'', T_string), (''confirmationStatus'', T_string),
      (''resolutions'', T_interface)]"

definition Intent_T :: go_type where
  "Intent_T = T_struct
     [(''name'', T_string), (''slots'', T_map IntentSlot_T),
      (''confirmationStatus'', T_string)]"

definition ErrorStruct_T :: go_type where
  "ErrorStruct_T = T_struct [(''type'', T_string), (''message'', T_string)]"

definition CauseStruct_T :: go_type where
  "CauseStruct_T = T_struct [(''requestId'', T_string)]"

definition PlaybackState_T :: go_type where
  "PlaybackState_T = T_struct
     [(''token'', T_string), (''offsetInMilliseconds'', T_int),
      (''playerActivity'', T_string)]"

definition CommonRequest_members :: "(string \<times> go_type) list" where
  "CommonRequest_members =
     [(''type'', T_string), (''requestId'', T_string), (''timestamp'', T_string),
      (''locale'', T_string), (''Session'', T_pointer Session_T),
      (''Context'', T_pointer Context_T)]"

definition AudioPlayerRequest_members :: "(string \<times> go_type) list" where
  "AudioPlayerRequest_members = CommonRequest_members @
     [(''token'', T_string), (''offsetInMilliseconds'', T_int)]"

fun target_type :: "requestObj \<Rightarrow> go_type option" where
  "target_type (ToLaunchRequest r) = Some (T_struct CommonRequest_members)"
| "target_type (ToIntentRequest r) =
     Some (T_struct (CommonRequest_members @
                      [(''intent'', Intent_T), (''dialogState'', T_string)]))"
| "target_type (ToSessionEndedRequest r) =
     Some (T_struct (CommonRequest_members @
                      [(''reason'', T_string), (''error'', ErrorStruct_T)]))"
| "target_type (ToSystemExceptionEncounteredRequest r) =
     Some (T_struct (CommonRequest_members @
                      [(''error'', ErrorStruct_T), (''cause'', CauseStruct_T)]))"
| "target_type (ToAudioPlayerRequest r) = Some (T_struct AudioPlayerRequest_members)"
| "target_type (ToAudioPlayerPlaybackFailedRequest r) =
     Some (T_struct (AudioPlayerRequest_members @
                      [(''error'', ErrorStruct_T),
                       (''currentPlaybackState'', PlaybackState_T)]))"
| "target_type NotAProvider = None"

subsection \<open>getTypedRequest\<close>

definition setContext ::
  "Context ref option \<Rightarrow> 'a CommonRequest_scheme \<Rightarrow> 'a CommonRequest_scheme" where
  "setContext ctx cr = cr\<lparr>CommonRequest.Context := ctx\<rparr>"

definition setSession ::
  "Session ref option \<Rightarrow> 'a CommonRequest_scheme \<Rightarrow> 'a CommonRequest_scheme" where
  "setSession session cr = cr\<lparr>CommonRequest.Session := session\<rparr>"

text \<open>
  \<^verbatim>\<open>requestObj.(requestEnvelopeDataProvider).setContext(ctx)\<close>: the type assertion, which
  panics on a value that is no provider, and the call of the method the struct has from the
  \<^verbatim>\<open>CommonRequest\<close> it embeds.
\<close>

fun provider_setContext :: "Context ref option \<Rightarrow> requestObj \<Rightarrow> panic + requestObj" where
  "provider_setContext ctx (ToLaunchRequest r) = Inr (ToLaunchRequest (setContext ctx r))"
| "provider_setContext ctx (ToIntentRequest r) = Inr (ToIntentRequest (setContext ctx r))"
| "provider_setContext ctx (ToSessionEndedRequest r) =
     Inr (ToSessionEndedRequest (setContext ctx r))"
| "provider_setContext ctx (ToSystemExceptionEncounteredRequest r) =
     Inr (ToSystemExceptionEncounteredRequest (setContext ctx r))"
| "provider_setContext ctx (ToAudioPlayerRequest r) =
     Inr (ToAudioPlayerRequest (setContext ctx r))"
| "provider_setContext ctx (ToAudioPlayerPlaybackFailedRequest r) =
     Inr (ToAudioPlayerPlaybackFailedRequest (setContext ctx r))"
| "provider_setContext ctx NotAProvider = Inl InterfaceConversion"

fun provider_setSession :: "Session ref option \<Rightarrow> requestObj \<Rightarrow> panic + requestObj" where
  "provider_setSession s (ToLaunchRequest r) = Inr (ToLaunchRequest (setSession s r))"
| "provider_setSession s (ToIntentRequest r) = Inr (ToIntentRequest (setSession s r))"
| "provider_setSession s (ToSessionEndedRequest r) =
     Inr (ToSessionEndedRequest (setSession s r))"
| "provider_setSession s (ToSystemExceptionEncounteredRequest r) =
     Inr (ToSystemExceptionEncounteredRequest (setSession s r))"
| "provider_setSession s (ToAudioPlayerRequest r) =
     Inr (ToAudioPlayerRequest (setSession s r))"
| "provider_setSession s (ToAudioPlayerPlaybackFailedRequest r) =
     Inr (ToAudioPlayerPlaybackFailedRequest (setSession s r))"
| "provider_setSession s NotAProvider = Inl InterfaceConversion"

text \<open>
  \<^verbatim>\<open>json.Unmarshal(data, &requestObj)\<close>: the decoder follows the interface to the struct it
  points to and decodes into it, with the fields of that struct's type. (For \<open>null\<close> it
  clears the local interface variable instead, which leaves the struct as it is, as
  decoding \<open>null\<close> into a struct does.) The last equation is not reached from
  \<open>getTypedRequest\<close>.
\<close>

fun Unmarshal ::
  "json \<Rightarrow> RequestEnvelope \<times> requestObj \<Rightarrow> (RequestEnvelope \<times> requestObj) \<times> json_error option"
  where
  "Unmarshal data (env, ToLaunchRequest r) =
     (let ((env1, r1), e) = decode_struct LaunchRequest_fields data (env, r)
      in ((env1, ToLaunchRequest r1), e))"
| "Unmarshal data (env, ToIntentRequest r) =
     (let ((env1, r1), e) = decode_struct IntentRequest_fields data (env, r)
      in ((env1, ToIntentRequest r1), e))"
| "Unmarshal data (env, ToSessionEndedRequest r) =
     (let ((env1, r1), e) = decode_struct SessionEndedRequest_fields data (env, r)
      in ((env1, ToSessionEndedRequest r1), e))"
| "Unmarshal data (env, ToSystemExceptionEncounteredRequest r) =
     (let ((env1, r1), e) =
            decode_struct SystemExceptionEncounteredRequest_fields data (env, r)
      in ((env1, ToSystemExceptionEncounteredRequest r1), e))"
| "Unmarshal data (env, ToAudioPlayerRequest r) =
     (let ((env1, r1), e) = decode_struct AudioPlayerRequest_fields data (env, r)
      in ((env1, ToAudioPlayerRequest r1), e))"
| "Unmarshal data (env, ToAudioPlayerPlaybackFailedRequest r) =
     (let ((env1, r1), e) =
            decode_struct AudioPlayerPlaybackFailedRequest_fields data (env, r)
      in ((env1, ToAudioPlayerPlaybackFailedRequest r1), e))"
| "Unmarshal data (env, NotAProvider) = ((env, NotAProvider), None)"

text \<open>
  The result is the envelope and the target as the call leaves them, with the error
  returned (\<open>None\<close> for nil), or the panic.
\<close>

definition getTypedRequest ::
  "RequestEnvelope \<Rightarrow> requestObj
     \<Rightarrow> panic + (RequestEnvelope \<times> requestObj) \<times> json_error option" where
  "getTypedRequest requestEnvelope requestObj =
     (let data = Marshal (Request requestEnvelope)
      in case provider_setContext (Some EnvelopeField) requestObj of
           Inl p \<Rightarrow> Inl p
         | Inr obj1 \<Rightarrow>
             (case provider_setSession (Some EnvelopeField) obj1 of
                Inl p \<Rightarrow> Inl p
              | Inr obj2 \<Rightarrow> Inr (Unmarshal data (requestEnvelope, obj2))))"

text \<open>The \<^verbatim>\<open>CommonRequest\<close> fields of the struct a target points to.\<close>

fun common :: "requestObj \<Rightarrow> CommonRequest option" where
  "common (ToLaunchRequest r) = Some r"
| "common (ToIntentRequest r) = Some (CommonRequest.truncate r)"
| "common (ToSessionEndedRequest r) = Some (CommonRequest.truncate r)"
| "common (ToSystemExceptionEncounteredRequest r) = Some (CommonRequest.truncate r)"
| "common (ToAudioPlayerRequest r) = Some (CommonRequest.truncate r)"
| "common (ToAudioPlayerPlaybackFailedRequest r) = Some (CommonRequest.truncate r)"
| "common NotAProvider = None"

subsection \<open>Serializing a Play directive and reading it back\<close>

text \<open>\<^verbatim>\<open>strconv.FormatInt(i, 10)\<close>, by which the encoder writes an integer field.\<close>

fun digits :: "nat \<Rightarrow> string" where
  "digits n =
     (if n < 10 then [''0123456789'' ! n]
      else digits (n div 10) @ [''0123456789'' ! (n mod 10)])"

declare digits.simps [simp del]

definition FormatInt :: "int \<Rightarrow> string" where
  "FormatInt i = (if i < 0 then CHR ''-'' # digits (nat (- i)) else digits (nat i))"

text \<open>
  \<^verbatim>\<open>json.Marshal\<close> of the directive: the fields in the order of their declaration under
  the names of their tags, a field tagged \<^verbatim>\<open>omitempty\<close> left out when it is the empty string
  or a nil pointer. What \<^verbatim>\<open>Metadata\<close> points to holds \<^verbatim>\<open>DisplayImageObject\<close>s, whose
  declaration is not in the source files, so its encoding is the parameter
  \<open>metadata_json\<close>, and the decoder of that pointer the parameter \<open>decode_metadata\<close>.
\<close>

definition Marshal_Stream :: "AudioItemStream \<Rightarrow> json" where
  "Marshal_Stream s = JObject
     ([(''url'', JString (toValidUTF8 (URL s))),
       (''token'', JString (toValidUTF8 (AudioItemStream.Token s)))]
      @ (if ExpectedPreviousToken s = '''' then []
         else [(''expectedPreviousToken'', JString (toValidUTF8 (ExpectedPreviousToken s)))])
      @ [(''offsetInMilliseconds'',
          JNumber (FormatInt (sint (AudioItemStream.OffsetInMilliseconds s))))])"

definition Marshal_AudioItem :: "(addr \<Rightarrow> json) \<Rightarrow> AudioItem \<Rightarrow> json" where
  "Marshal_AudioItem metadata_json a = JObject
     ([(''stream'', Marshal_Stream (Stream a))]
      @ (case Metadata a of None \<Rightarrow> [] | Some m \<Rightarrow> [(''metadata'', metadata_json m)]))"

definition Marshal_PlayDirective :: "(addr \<Rightarrow> json) \<Rightarrow> AudioPlayerPlayDirective \<Rightarrow> json" where
  "Marshal_PlayDirective metadata_json d = JObject
     [(''type'', JString (toValidUTF8 (AudioPlayerPlayDirective.Type d))),
      (''playBehavior'', JString (toValidUTF8 (PlayBehavior d))),
      (''audioItem'', Marshal_AudioItem metadata_json (AudioItem d))]"

definition AudioItemStream_fields :: "(string \<times> AudioItemStream decoder) list" where
  "AudioItemStream_fields =
     [struct_field ''url'' URL URL_update decode_string,
      struct_field ''token'' AudioItemStream.Token AudioItemStream.Token_update decode_string,
      struct_field ''expectedPreviousToken'' ExpectedPreviousToken
        ExpectedPreviousToken_update decode_string,
      struct_field ''offsetInMilliseconds'' AudioItemStream.OffsetInMilliseconds
        AudioItemStream.OffsetInMilliseconds_update decode_int]"

definition AudioItem_fields :: "addr option decoder \<Rightarrow> (string \<times> AudioItem decoder) list" where
  "AudioItem_fields decode_metadata =
     [struct_field ''stream'' Stream Stream_update (decode_struct AudioItemStream_fields),
      struct_field ''metadata'' Metadata Metadata_update decode_metadata]"

definition AudioPlayerPlayDirective_fields ::
  "addr option decoder \<Rightarrow> (string \<times> AudioPlayerPlayDirective decoder) list" where
  "AudioPlayerPlayDirective_fields decode_metadata =
     [struct_field ''type'' AudioPlayerPlayDirective.Type
        AudioPlayerPlayDirective.Type_update decode_string,
      struct_field ''playBehavior'' PlayBehavior PlayBehavior_update decode_string,
      struct_field ''audioItem'' AudioItem AudioItem_update
        (decode_struct (AudioItem_fields decode_metadata))]"

definition zero_AudioPlayerPlayDirective :: AudioPlayerPlayDirective where
  "zero_AudioPlayerPlayDirective =
     \<lparr>AudioPlayerPlayDirective.Type = '''', PlayBehavior = '''',
      AudioItem = \<lparr>Stream = \<lparr>URL = '''', Token = '''', ExpectedPreviousToken = '''',
                                OffsetInMilliseconds = 0\<rparr>,
                   Metadata = None\<rparr>\<rparr>"

text \<open>The directive serialized, and the text decoded into a new directive.\<close>

definition reparsed ::
  "addr option decoder \<Rightarrow> (addr \<Rightarrow> json) \<Rightarrow> AudioPlayerPlayDirective
     \<Rightarrow> AudioPlayerPlayDirective \<times> json_error option" where
  "reparsed decode_metadata metadata_json d =
     decode_struct (AudioPlayerPlayDirective_fields decode_metadata)
       (Marshal_PlayDirective metadata_json d) zero_AudioPlayerPlayDirective"

text \<open>
  For the examples, in which \<^verbatim>\<open>Metadata\<close> is nil and no \<open>metadata\<close> member is written:
  any encoding and any decoder will do.
\<close>

definition no_metadata_json :: "addr \<Rightarrow> json" where
  "no_metadata_json m = JNull"

definition keep_metadata :: "addr option decoder" where
  "keep_metadata j v = (v, None)"

section \<open>Properties of the directive builders\<close>

lemma obj_at_new_same: "obj_at (snd (new x w)) (fst (new x w)) = Some x"
  by (simp add: obj_at_def new_def)

lemma obj_at_new_old: "a < length (heap w) \<Longrightarrow> obj_at (snd (new x w)) a = obj_at w a"
  by (simp add: obj_at_def new_def nth_append)

lemma obj_at_store_same: "a < length (heap w) \<Longrightarrow> obj_at (store a x w) a = Some x"
  by (simp add: obj_at_def store_def)

lemma obj_at_store_other: "a \<noteq> b \<Longrightarrow> obj_at (store a x w) b = obj_at w b"
  by (simp add: obj_at_def store_def)

lemma obj_at_Some_length: "obj_at w a = Some x \<Longrightarrow> a < length (heap w)"
  by (simp add: obj_at_def split: if_splits)

text \<open>
  C6. For every \<open>clearBehavior\<close>, \<^verbatim>\<open>AddAudioPlayerClearQueueDirective\<close> allocates a directive
  with Type \<open>AudioPlayer.ClearQueue\<close> and the given \<open>clearBehavior\<close> unchanged, appends its
  pointer to the response's directives and returns it. It writes the one diagnostic line
  exactly when \<open>clearBehavior\<close> is neither \<open>CLEAR_ENQUEUED\<close> nor \<open>CLEAR_ALL\<close>, and nothing
  otherwise: none for \<open>CLEAR_ALL\<close>, one for \<open>BOGUS\<close>. The function has no failing branch.
\<close>

theorem ClearQueue_directive_built:
  "(case AddAudioPlayerClearQueueDirective clearBehavior r w of (d, r', w') \<Rightarrow>
      d = length (heap w)
    \<and> heap w' = heap w @ [ClearQueueObj \<lparr>AudioPlayerClearQueueDirective.Type = ''AudioPlayer.ClearQueue'',
                                         ClearBehavior = clearBehavior\<rparr>]
    \<and> obj_at w' d = Some (ClearQueueObj \<lparr>AudioPlayerClearQueueDirective.Type = ''AudioPlayer.ClearQueue'',
                                         ClearBehavior = clearBehavior\<rparr>)
    \<and> r' = r\<lparr>Directives := Directives r @ [d]\<rparr>
    \<and> logged w' = logged w @
          (if clearBehavior = ''CLEAR_ENQUEUED'' then []
           else if clearBehavior = ''CLEAR_ALL'' then []
           else [[JString invalidClearBehaviorStr]]))
   \<and> logged (snd (snd (AddAudioPlayerClearQueueDirective ''CLEAR_ALL'' r w))) = logged w
   \<and> logged (snd (snd (AddAudioPlayerClearQueueDirective ''BOGUS'' r w))) =
       logged w @ [[JString invalidClearBehaviorStr]]"
  by (simp add: AddAudioPlayerClearQueueDirective_def new_def log_Println_def
      AddDirective_def obj_at_def Let_def)

text \<open>
  C7. For every response, adding a Play, then a ClearQueue, then a Stop directive leaves
  the response's directive sequence as it was with three pointers appended, in that order:
  to a directive of Type \<open>AudioPlayer.Play\<close>, one of Type \<open>AudioPlayer.ClearQueue\<close> and one
  of Type \<open>AudioPlayer.Stop\<close>. The three are new, distinct objects, the objects that
  existed before are untouched, and no other field of the response changes.
\<close>

theorem Play_ClearQueue_Stop_order:
  "(let (p, r1, w1) = AddAudioPlayerPlayDirective playBehavior r w;
        (c, r2, w2) = AddAudioPlayerClearQueueDirective clearBehavior r1 w1;
        (s, r3, w3) = AddAudioPlayerStopDirective r2 w2
    in r3 = r\<lparr>Directives := Directives r @ [p, c, s]\<rparr>
     \<and> directive_Type w3 p = Some ''AudioPlayer.Play''
     \<and> directive_Type w3 c = Some ''AudioPlayer.ClearQueue''
     \<and> directive_Type w3 s = Some ''AudioPlayer.Stop''
     \<and> distinct [p, c, s]
     \<and> obj_at w p = None \<and> obj_at w c = None \<and> obj_at w s = None
     \<and> take (length (heap w)) (heap w3) = heap w)"
  by (simp add: AddAudioPlayerPlayDirective_def AddAudioPlayerClearQueueDirective_def
      AddAudioPlayerStopDirective_def new_def log_Println_def AddDirective_def obj_at_def
      directive_Type_def Let_def nth_append)

text \<open>
  C9. For every Play directive \<open>d\<close>, \<^verbatim>\<open>SetAudioItemMetadata\<close> followed by \<^verbatim>\<open>SetArtImage\<close>
  on the metadata pointer it returned both succeed, and afterwards the directive's
  \<open>AudioItem.Metadata\<close> has the given title and subtitle and its \<open>Art\<close> image has the given
  content description (in the claim: \<open>T\<close>, \<open>S\<close> and \<open>desc\<close>).
\<close>

theorem metadata_chaining:
  assumes "obj_at w d = Some (PlayObj pd)"
  shows "\<exists>m w1 img w2 md io.
           SetAudioItemMetadata d title subtitle w = Inr (m, w1)
         \<and> SetArtImage m desc w1 = Inr (img, w2)
         \<and> audioItem_metadata w2 d = Some md
         \<and> Title md = title \<and> Subtitle md = subtitle
         \<and> metadata_art w2 md = Some io
         \<and> ContentDescription io = desc"
proof -
  from assms have dlt: "d < length (heap w)" by (rule obj_at_Some_length)
  from assms have hd: "heap w ! d = PlayObj pd" by (simp add: obj_at_def split: if_splits)
  show ?thesis
    using dlt hd
    by (simp add: SetAudioItemMetadata_def SetArtImage_def new_def store_def obj_at_def
        audioItem_metadata_def metadata_art_def Let_def nth_append nth_list_update)
qed

theorem metadata_chaining_witness:
  "obj_at (snd (snd (AddAudioPlayerPlayDirective ''REPLACE_ALL'' \<lparr>Directives = []\<rparr>
                       \<lparr>heap = [], logged = []\<rparr>))) 0
     = Some (PlayObj \<lparr>AudioPlayerPlayDirective.Type = ''AudioPlayer.Play'',
                      PlayBehavior = ''REPLACE_ALL'',
                      AudioItem = \<lparr>Stream = \<lparr>URL = '''', Token = '''',
                                              ExpectedPreviousToken = '''',
                                              OffsetInMilliseconds = 0\<rparr>,
                                   Metadata = None\<rparr>\<rparr>)
   \<and> (\<exists>m w1 img w2 md io.
           SetAudioItemMetadata 0 ''T'' ''S''
             (snd (snd (AddAudioPlayerPlayDirective ''REPLACE_ALL'' \<lparr>Directives = []\<rparr>
                          \<lparr>heap = [], logged = []\<rparr>))) = Inr (m, w1)
         \<and> SetArtImage m ''desc'' w1 = Inr (img, w2)
         \<and> audioItem_metadata w2 0 = Some md
         \<and> Title md = ''T'' \<and> Subtitle md = ''S''
         \<and> metadata_art w2 md = Some io
         \<and> ContentDescription io = ''desc'')"
proof -
  have h: "obj_at (snd (snd (AddAudioPlayerPlayDirective ''REPLACE_ALL'' \<lparr>Directives = []\<rparr>
                       \<lparr>heap = [], logged = []\<rparr>))) 0
     = Some (PlayObj \<lparr>AudioPlayerPlayDirective.Type = ''AudioPlayer.Play'',
                      PlayBehavior = ''REPLACE_ALL'',
                      AudioItem = \<lparr>Stream = \<lparr>URL = '''', Token = '''',
                                              ExpectedPreviousToken = '''',
                                              OffsetInMilliseconds = 0\<rparr>,
                                   Metadata = None\<rparr>\<rparr>)"
    by (simp add: AddAudioPlayerPlayDirective_def new_def obj_at_def)
  from metadata_chaining [OF h, of "''T''" "''S''" "''desc''"] h show ?thesis by blast
qed

section \<open>Properties of verifyTimestamp\<close>

lemma Seconds_eq: "Seconds d = real_of_int d / 1000000000"
proof -
  have "d sdiv Second * Second + d smod Second = d"
    by (rule sdiv_mult_smod_eq)
  then have "real_of_int (d sdiv Second * Second + d smod Second) = real_of_int d"
    by simp
  then have "real_of_int (d sdiv Second) * 1000000000 + real_of_int (d smod Second) = real_of_int d"
    by (simp add: Second_def)
  then show ?thesis by (simp add: Seconds_def field_simps)
qed

lemma Seconds_less_30: "Seconds d < Seconds (30 * Second) \<longleftrightarrow> d < 30 * Second"
  by (simp add: Seconds_eq Second_def)

lemma fresh_iff: "Seconds (Since now t) < Seconds (30 * Second) \<longleftrightarrow> now - t < 30 * Second"
  unfolding Seconds_less_30
  by (auto simp: Since_def Sub_def Let_def Second_def minDuration_def maxDuration_def)

lemmas time_Parse_eval = time_Parse_def decimal_def isDigit_def digit_def skip_def getnum_def
  parseFraction_def daysIn_def isLeap_def daysBefore_def Date_def

lemma verifyTimestamp_parsed:
  assumes "Request env = JObject m" and "map_index m ''timestamp'' = Some (JString ts)"
    and "parse ''2006-01-02T15:04:05Z'' ts = Some t"
  shows "verifyTimestamp parse now env w = Inr (now - t < 30 * Second, w)"
  using assms by (simp add: verifyTimestamp_def fresh_iff)

lemma verifyTimestamp_unparsed:
  assumes "Request env = JObject m" and "map_index m ''timestamp'' = Some (JString ts)"
    and "parse ''2006-01-02T15:04:05Z'' ts = None"
  shows "verifyTimestamp parse now env w =
           Inr (now < 30 * Second,
                log_Println [JString ''Error parsing request timestamp with value '',
                             JString ts, Request env] w)"
  using assms by (simp add: verifyTimestamp_def fresh_iff)

text \<open>
  C4. For every envelope whose payload carries a string timestamp, \<^verbatim>\<open>verifyTimestamp\<close>
  returns true exactly when the clock reading less the parsed timestamp is strictly less
  than 30 seconds (first conjunct, for every parser and every parsed instant). So a
  timestamp 29 seconds in the past gives true and one 31 seconds in the past gives false.
  A timestamp that does not parse is logged and compared as the zero \<^verbatim>\<open>Time\<close>, which gives
  false on every clock reading at least 30 seconds after the start of year 1. The witness
  reads the timestamps with \<open>time_Parse\<close>, the parser of the source's layout.
\<close>

theorem verifyTimestamp_fresh_iff:
  assumes "Request env = JObject m" and "map_index m ''timestamp'' = Some (JString ts)"
  shows "(\<forall>t. parse ''2006-01-02T15:04:05Z'' ts = Some t \<longrightarrow>
            verifyTimestamp parse now env w = Inr (now - t < 30 * Second, w))
       \<and> (parse ''2006-01-02T15:04:05Z'' ts = Some (now - 29 * Second) \<longrightarrow>
            verifyTimestamp parse now env w = Inr (True, w))
       \<and> (parse ''2006-01-02T15:04:05Z'' ts = Some (now - 31 * Second) \<longrightarrow>
            verifyTimestamp parse now env w = Inr (False, w))
       \<and> (parse ''2006-01-02T15:04:05Z'' ts = None \<and> 30 * Second \<le> now \<longrightarrow>
            verifyTimestamp parse now env w =
              Inr (False, log_Println [JString ''Error parsing request timestamp with value '',
                                       JString ts, Request env] w))"
proof (intro conjI allI impI)
  fix t assume "parse ''2006-01-02T15:04:05Z'' ts = Some t"
  then show "verifyTimestamp parse now env w = Inr (now - t < 30 * Second, w)"
    by (rule verifyTimestamp_parsed [where parse = parse, OF assms])
next
  assume "parse ''2006-01-02T15:04:05Z'' ts = Some (now - 29 * Second)"
  from verifyTimestamp_parsed [where parse = parse, OF assms this]
  show "verifyTimestamp parse now env w = Inr (True, w)" by (simp add: Second_def)
next
  assume "parse ''2006-01-02T15:04:05Z'' ts = Some (now - 31 * Second)"
  from verifyTimestamp_parsed [where parse = parse, OF assms this]
  show "verifyTimestamp parse now env w = Inr (False, w)" by (simp add: Second_def)
next
  assume "parse ''2006-01-02T15:04:05Z'' ts = None \<and> 30 * Second \<le> now"
  then have p: "parse ''2006-01-02T15:04:05Z'' ts = None" and n: "30 * Second \<le> now" by simp_all
  from verifyTimestamp_unparsed [where parse = parse, OF assms p] n
  show "verifyTimestamp parse now env w =
              Inr (False, log_Println [JString ''Error parsing request timestamp with value '',
                                       JString ts, Request env] w)" by simp
qed

theorem verifyTimestamp_fresh_iff_witness:
  "time_Parse ''2006-01-02T15:04:05Z'' ''2018-05-04T12:00:00Z'' = Some 63661032000000000000
   \<and> verifyTimestamp time_Parse (63661032000000000000 + 29 * Second)
        (envelope_of (JObject [(''type'', JString ''LaunchRequest''),
                               (''timestamp'', JString ''2018-05-04T12:00:00Z'')]))
        \<lparr>heap = [], logged = []\<rparr>
       = Inr (True, \<lparr>heap = [], logged = []\<rparr>)
   \<and> verifyTimestamp time_Parse (63661032000000000000 + 31 * Second)
        (envelope_of (JObject [(''type'', JString ''LaunchRequest''),
                               (''timestamp'', JString ''2018-05-04T12:00:00Z'')]))
        \<lparr>heap = [], logged = []\<rparr>
       = Inr (False, \<lparr>heap = [], logged = []\<rparr>)
   \<and> time_Parse ''2006-01-02T15:04:05Z'' ''yesterday'' = None
   \<and> verifyTimestamp time_Parse 63661032000000000000
        (envelope_of (JObject [(''timestamp'', JString ''yesterday'')]))
        \<lparr>heap = [], logged = []\<rparr>
       = Inr (False, \<lparr>heap = [],
                      logged = [[JString ''Error parsing request timestamp with value '',
                                 JString ''yesterday'',
                                 JObject [(''timestamp'', JString ''yesterday'')]]]\<rparr>)"
proof -
  let ?m = "[(''type'', JString ''LaunchRequest''),
             (''timestamp'', JString ''2018-05-04T12:00:00Z'')]"
  let ?w = "\<lparr>heap = [], logged = []\<rparr>"
  have e: "Request (envelope_of (JObject ?m)) = JObject ?m"
    by (simp add: envelope_of_def)
  have i: "map_index ?m ''timestamp'' = Some (JString ''2018-05-04T12:00:00Z'')"
    by (simp add: map_index_def)
  have p: "time_Parse ''2006-01-02T15:04:05Z'' ''2018-05-04T12:00:00Z''
             = Some 63661032000000000000"
    by (simp add: time_Parse_eval)
  have e': "Request (envelope_of (JObject [(''timestamp'', JString ''yesterday'')]))
              = JObject [(''timestamp'', JString ''yesterday'')]"
    by (simp add: envelope_of_def)
  have i': "map_index [(''timestamp'', JString ''yesterday'')] ''timestamp''
              = Some (JString ''yesterday'')"
    by (simp add: map_index_def)
  have p': "time_Parse ''2006-01-02T15:04:05Z'' ''yesterday'' = None"
    by (simp add: time_Parse_eval)
  from verifyTimestamp_fresh_iff [OF e i, of time_Parse "63661032000000000000 + 29 * Second" ?w] p
  have a: "verifyTimestamp time_Parse (63661032000000000000 + 29 * Second)
             (envelope_of (JObject ?m)) ?w = Inr (True, ?w)"
    by (simp add: Second_def)
  from verifyTimestamp_fresh_iff [OF e i, of time_Parse "63661032000000000000 + 31 * Second" ?w] p
  have b: "verifyTimestamp time_Parse (63661032000000000000 + 31 * Second)
             (envelope_of (JObject ?m)) ?w = Inr (False, ?w)"
    by (simp add: Second_def)
  from verifyTimestamp_fresh_iff [OF e' i', of time_Parse 63661032000000000000 ?w] p'
  have c: "verifyTimestamp time_Parse 63661032000000000000
             (envelope_of (JObject [(''timestamp'', JString ''yesterday'')])) ?w
           = Inr (False, \<lparr>heap = [],
                      logged = [[JString ''Error parsing request timestamp with value '',
                                 JString ''yesterday'',
                                 JObject [(''timestamp'', JString ''yesterday'')]]]\<rparr>)"
    by (simp add: Second_def log_Println_def envelope_of_def)
  from p a b p' c show ?thesis by simp
qed

text \<open>
  C10. For every envelope whose timestamp parses to an instant after the clock reading,
  however far after, \<^verbatim>\<open>verifyTimestamp\<close> returns true: the difference is negative, or the
  least \<^verbatim>\<open>Duration\<close> where it does not fit, and either is below 30 seconds.
\<close>

theorem verifyTimestamp_future:
  assumes "Request env = JObject m" and "map_index m ''timestamp'' = Some (JString ts)"
    and "parse ''2006-01-02T15:04:05Z'' ts = Some t" and "now < t"
  shows "verifyTimestamp parse now env w = Inr (True, w)"
  using verifyTimestamp_parsed [where parse = parse, OF assms(1,2,3), of now w] assms(4)
  by (simp add: Second_def)

theorem verifyTimestamp_future_witness:
  "time_Parse ''2006-01-02T15:04:05Z'' ''9999-12-31T23:59:59Z'' = Some 315537897599000000000
   \<and> (63661032000000000000::int) < 315537897599000000000
   \<and> Sub 63661032000000000000 315537897599000000000 = minDuration
   \<and> verifyTimestamp time_Parse 63661032000000000000
        (envelope_of (JObject [(''timestamp'', JString ''9999-12-31T23:59:59Z'')]))
        \<lparr>heap = [], logged = []\<rparr>
       = Inr (True, \<lparr>heap = [], logged = []\<rparr>)"
proof -
  let ?m = "[(''timestamp'', JString ''9999-12-31T23:59:59Z'')]"
  have e: "Request (envelope_of (JObject ?m)) = JObject ?m"
    by (simp add: envelope_of_def)
  have i: "map_index ?m ''timestamp'' = Some (JString ''9999-12-31T23:59:59Z'')"
    by (simp add: map_index_def)
  have p: "time_Parse ''2006-01-02T15:04:05Z'' ''9999-12-31T23:59:59Z''
             = Some 315537897599000000000"
    by (simp add: time_Parse_eval)
  have l: "(63661032000000000000::int) < 315537897599000000000" by simp
  have s: "Sub 63661032000000000000 315537897599000000000 = minDuration"
    by (simp add: Sub_def minDuration_def maxDuration_def)
  from verifyTimestamp_future [where parse = time_Parse, OF e i p l] p l s show ?thesis by simp
qed

text \<open>
  C2, as stated, fails: \<^verbatim>\<open>verifyTimestamp\<close> panics on a failed type assertion when the
  payload is a string, when it is null, when it is an object without \<open>timestamp\<close>, and when
  \<open>timestamp\<close> is a number.
\<close>

theorem verifyTimestamp_panics:
  "verifyTimestamp time_Parse 63661032000000000000 (envelope_of (JString ''2018-05-04T12:00:00Z''))
     \<lparr>heap = [], logged = []\<rparr> = Inl InterfaceConversion
   \<and> verifyTimestamp time_Parse 63661032000000000000 (envelope_of JNull)
     \<lparr>heap = [], logged = []\<rparr> = Inl InterfaceConversion
   \<and> verifyTimestamp time_Parse 63661032000000000000
       (envelope_of (JObject [(''type'', JString ''LaunchRequest'')]))
     \<lparr>heap = [], logged = []\<rparr> = Inl InterfaceConversion
   \<and> verifyTimestamp time_Parse 63661032000000000000
       (envelope_of (JObject [(''timestamp'', JNumber ''1525435200'')]))
     \<lparr>heap = [], logged = []\<rparr> = Inl InterfaceConversion"
  by (simp add: verifyTimestamp_def envelope_of_def map_index_def)

text \<open>
  C2, amended. \<^verbatim>\<open>verifyTimestamp\<close> returns a boolean, for every parser and clock reading,
  exactly for the envelopes whose payload is a JSON object with a string under
  \<open>timestamp\<close>, whatever the string; for every other envelope the type assertions of its
  first line fail and it panics.
\<close>

theorem verifyTimestamp_returns_iff:
  "(if \<exists>m ts. Request env = JObject m \<and> map_index m ''timestamp'' = Some (JString ts)
    then \<exists>b w'. verifyTimestamp parse now env w = Inr (b, w')
    else verifyTimestamp parse now env w = Inl InterfaceConversion)"
  by (auto simp: verifyTimestamp_def Let_def split: json.splits option.splits prod.splits)

section \<open>Properties of getTypedRequest\<close>

lemma saveError_None [simp]: "saveError err e = None \<longleftrightarrow> err = None \<and> e = None"
  by (simp add: saveError_def split: option.splits)

lemma sound_string: "sound decode_string T_string"
  by (auto simp: sound_def decode_string_def split: json.splits)

lemma sound_bool: "sound decode_bool T_bool"
  by (auto simp: sound_def decode_bool_def split: json.splits)

lemma sound_int: "sound decode_int T_int"
  by (auto simp: sound_def decode_int_def split: json.splits option.splits)

lemma sound_interface: "sound decode_interface T_interface"
  by (simp add: sound_def decode_interface_def)

lemma decode_map_fold:
  assumes "sound elem t"
  shows "snd (foldl (\<lambda>(acc, err) (k, jv).
                 let (x, e) = elem jv zero in (acc @ [(k, x)], saveError err e))
               (acc0, err0) kvs) = None
         \<longleftrightarrow> err0 = None \<and> list_all (\<lambda>(k, jv). matches t jv) kvs"
proof (induction kvs arbitrary: acc0 err0)
  case Nil
  show ?case by simp
next
  case (Cons kv kvs)
  obtain k jv where kv: "kv = (k, jv)" by (cases kv)
  obtain x e where xe: "elem jv zero = (x, e)" by (cases "elem jv zero")
  from assms have "(snd (elem jv zero) = None) = matches t jv"
    by (simp add: sound_def)
  with xe have m: "(e = None) = matches t jv" by simp
  show ?case
    using Cons.IH [of "acc0 @ [(k, x)]" "saveError err0 e"] m
    by (auto simp: kv xe)
qed

lemma sound_map: "sound elem t \<Longrightarrow> sound (decode_map elem zero) (T_map t)"
  unfolding sound_def
proof (intro allI)
  fix j v
  assume a: "\<forall>j v. (snd (elem j v) = None) = matches t j"
  then have s: "sound elem t" by (simp add: sound_def)
  show "(snd (decode_map elem zero j v) = None) = matches (T_map t) j"
  proof (cases j)
    case (JObject kvs)
    then show ?thesis
      using decode_map_fold [OF s, of zero "case v of None \<Rightarrow> [] | Some l \<Rightarrow> l" None kvs]
      by (simp add: decode_map_def case_prod_beta)
  qed (simp_all add: decode_map_def)
qed

lemma find_rel:
  assumes "list_all2 (\<lambda>f ft. fst f = fst ft \<and> sound (snd f) (snd ft)) fs tfs"
  shows "rel_option (\<lambda>f ft. fst f = fst ft \<and> sound (snd f) (snd ft))
           (find (\<lambda>f. P (fst f)) fs) (find (\<lambda>f. P (fst f)) tfs)"
  using assms by (induction rule: list_all2_induct) auto

lemma lookup_rel:
  assumes "field_rel fs tfs"
  shows "rel_option sound (lookup_field fs k) (lookup_field tfs k)"
proof -
  let ?R = "\<lambda>f ft. fst f = fst ft \<and> sound (snd f) (snd ft)"
  from assms have l: "list_all2 ?R fs tfs" by (simp add: field_rel_def)
  have a: "rel_option ?R (find (\<lambda>f. fst f = k) fs) (find (\<lambda>f. fst f = k) tfs)"
    using find_rel [OF l, of "\<lambda>n. n = k"] by simp
  have b: "rel_option ?R (find (\<lambda>f. foldName (fst f) = foldName k) fs)
              (find (\<lambda>f. foldName (fst f) = foldName k) tfs)"
    using find_rel [OF l, of "\<lambda>n. foldName n = foldName k"] by simp
  show ?thesis
    using a b
    by (auto simp: lookup_field_def option.rel_map elim!: option.rel_cases split: option.splits)
qed

lemma decode_object_fold:
  assumes "field_rel fs tfs"
  shows "snd (foldl (\<lambda>(v1, err) (key, jv).
              case lookup_field fs key of
                None \<Rightarrow> (v1, err)
              | Some d \<Rightarrow> (let (v2, e) = d jv v1 in (v2, saveError err e)))
           (v, err0) kvs) = None
         \<longleftrightarrow> err0 = None \<and>
             list_all (\<lambda>(k, jv). case lookup_field tfs k of None \<Rightarrow> True
                                   | Some t \<Rightarrow> matches t jv) kvs"
proof (induction kvs arbitrary: v err0)
  case Nil
  show ?case by simp
next
  case (Cons kv kvs)
  obtain k jv where kv: "kv = (k, jv)" by (cases kv)
  from lookup_rel [OF assms, of k]
  show ?case
  proof (cases rule: option.rel_cases)
    case None
    then show ?thesis using Cons.IH [of v err0] by (simp add: kv)
  next
    case (Some d t)
    obtain v2 e where ve: "d jv v = (v2, e)" by (cases "d jv v")
    from Some have "(snd (d jv v) = None) = matches t jv" by (simp add: sound_def)
    with ve have m: "(e = None) = matches t jv" by simp
    show ?thesis
      using Cons.IH [of v2 "saveError err0 e"] Some m
      by (auto simp: kv ve)
  qed
qed

lemma sound_struct: "field_rel fs tfs \<Longrightarrow> sound (decode_struct fs) (T_struct tfs)"
  unfolding sound_def
proof (intro allI)
  fix j v
  assume r: "field_rel fs tfs"
  show "(snd (decode_struct fs j v) = None) = matches (T_struct tfs) j"
  proof (cases j)
    case (JObject kvs)
    then show ?thesis
      using decode_object_fold [OF r, of v None kvs]
      by (simp add: decode_struct_def decode_object_def)
  qed (simp_all add: decode_struct_def)
qed

lemma field_rel_Nil: "field_rel [] []"
  by (simp add: field_rel_def)

lemma field_rel_Cons:
  "fst f = n \<Longrightarrow> sound (snd f) t \<Longrightarrow> field_rel fs tfs \<Longrightarrow> field_rel (f # fs) ((n, t) # tfs)"
  by (simp add: field_rel_def)

lemma field_rel_append:
  "field_rel fs tfs \<Longrightarrow> field_rel gs tgs \<Longrightarrow> field_rel (fs @ gs) (tfs @ tgs)"
  by (simp add: field_rel_def list_all2_appendI)

lemma fst_struct_field: "fst (struct_field n sel upd d) = n"
  by (simp add: struct_field_def)

lemma sound_struct_field: "sound d t \<Longrightarrow> sound (snd (struct_field n sel upd d)) t"
  by (simp add: sound_def struct_field_def split: prod.splits) (metis snd_conv)

lemma fst_on_target: "fst (on_target f) = fst f"
  by (simp add: on_target_def)

lemma sound_on_target: "sound (snd f) t \<Longrightarrow> sound (snd (on_target f)) t"
  by (simp add: sound_def on_target_def split: prod.splits) (metis snd_conv)

lemma fst_pointer_field: "fst (pointer_field n sel upd es eu d z) = n"
  by (simp add: pointer_field_def)

lemma matches_JNull: "matches t JNull"
  by (induction t) simp_all

lemma pointer_field_error:
  "snd (snd (pointer_field n sel upd es eu d z) j (env, r)) =
     (if j = JNull then None
      else snd (d j (case sel r of None \<Rightarrow> z | Some EnvelopeField \<Rightarrow> es env
                       | Some (Allocated x0) \<Rightarrow> x0)))"
  by (cases j; simp add: pointer_field_def case_prod_beta split: option.splits ref.splits)

lemma sound_pointer_field:
  "sound d t \<Longrightarrow> sound (snd (pointer_field n sel upd es eu d z)) (T_pointer t)"
  by (simp add: sound_def pointer_field_error matches_JNull)

lemmas sound_intros = sound_string sound_bool sound_int sound_interface sound_map
  sound_struct sound_struct_field sound_on_target sound_pointer_field
  field_rel_Nil field_rel_Cons field_rel_append

lemmas fst_field = fst_struct_field fst_on_target fst_pointer_field

lemma sound_Application: "sound (decode_struct Application_fields) Application_T"
  unfolding Application_fields_def Application_T_def
  by (intro sound_intros; simp add: fst_field)

lemma sound_User: "sound (decode_struct User_fields) User_T"
  unfolding User_fields_def User_T_def
  by (intro sound_intros; simp add: fst_field)

lemma sound_Session: "sound (decode_struct Session_fields) Session_T"
  unfolding Session_fields_def Session_T_def
  by (intro sound_intros sound_Application sound_User; simp add: fst_field)

lemma sound_Device: "sound (decode_struct Device_fields) Device_T"
  unfolding Device_fields_def Device_T_def
  by (intro sound_intros; simp add: fst_field)

lemma sound_System: "sound (decode_struct System_fields) System_T"
  unfolding System_fields_def System_T_def
  by (intro sound_intros sound_Application sound_User sound_Device; simp add: fst_field)

lemma sound_AudioPlayer: "sound (decode_struct AudioPlayer_fields) AudioPlayer_T"
  unfolding AudioPlayer_fields_def AudioPlayer_T_def
  by (intro sound_intros; simp add: fst_field)

lemma sound_Context: "sound (decode_struct Context_fields) Context_T"
  unfolding Context_fields_def Context_T_def
  by (intro sound_intros sound_System sound_AudioPlayer; simp add: fst_field)

lemma sound_IntentSlot: "sound (decode_struct IntentSlot_fields) IntentSlot_T"
  unfolding IntentSlot_fields_def IntentSlot_T_def
  by (intro sound_intros; simp add: fst_field)

lemma sound_Intent: "sound (decode_struct Intent_fields) Intent_T"
  unfolding Intent_fields_def Intent_T_def
  by (intro sound_intros sound_IntentSlot; simp add: fst_field)

lemma sound_ErrorStruct: "sound (decode_struct ErrorStruct_fields) ErrorStruct_T"
  unfolding ErrorStruct_fields_def ErrorStruct_T_def
  by (intro sound_intros; simp add: fst_field)

lemma sound_CauseStruct: "sound (decode_struct CauseStruct_fields) CauseStruct_T"
  unfolding CauseStruct_fields_def CauseStruct_T_def
  by (intro sound_intros; simp add: fst_field)

lemma sound_PlaybackState: "sound (decode_struct PlaybackState_fields) PlaybackState_T"
  unfolding PlaybackState_fields_def PlaybackState_T_def
  by (intro sound_intros; simp add: fst_field)

lemma rel_CommonRequest: "field_rel CommonRequest_fields CommonRequest_members"
  unfolding CommonRequest_fields_def CommonRequest_members_def
  by (intro sound_intros sound_Session sound_Context; simp add: fst_field)

lemma rel_AudioPlayerRequest: "field_rel AudioPlayerRequest_fields AudioPlayerRequest_members"
  unfolding AudioPlayerRequest_fields_def AudioPlayerRequest_members_def
  by (intro sound_intros rel_CommonRequest; simp add: fst_field)

lemma Unmarshal_error:
  assumes "target_type obj = Some t"
  shows "(snd (Unmarshal data (env, obj)) = None) = matches t data"
proof (cases obj)
  case (ToLaunchRequest r)
  have "sound (decode_struct (LaunchRequest_fields)) (T_struct CommonRequest_members)"
    unfolding LaunchRequest_fields_def by (intro sound_struct rel_CommonRequest)
  then show ?thesis using assms ToLaunchRequest
    by (auto simp add: sound_def case_prod_beta simp del: matches.simps)
next
  case (ToIntentRequest r)
  have "sound (decode_struct IntentRequest_fields)
          (T_struct (CommonRequest_members @
                      [(''intent'', Intent_T), (''dialogState'', T_string)]))"
    unfolding IntentRequest_fields_def
    by (intro sound_intros rel_CommonRequest sound_Intent; simp add: fst_field)
  then show ?thesis using assms ToIntentRequest
    by (auto simp add: sound_def case_prod_beta simp del: matches.simps)
next
  case (ToSessionEndedRequest r)
  have "sound (decode_struct SessionEndedRequest_fields)
          (T_struct (CommonRequest_members @
                      [(''reason'', T_string), (''error'', ErrorStruct_T)]))"
    unfolding SessionEndedRequest_fields_def
    by (intro sound_intros rel_CommonRequest sound_ErrorStruct; simp add: fst_field)
  then show ?thesis using assms ToSessionEndedRequest
    by (auto simp add: sound_def case_prod_beta simp del: matches.simps)
next
  case (ToSystemExceptionEncounteredRequest r)
  have "sound (decode_struct SystemExceptionEncounteredRequest_fields)
          (T_struct (CommonRequest_members @
                      [(''error'', ErrorStruct_T), (''cause'', CauseStruct_T)]))"
    unfolding SystemExceptionEncounteredRequest_fields_def
    by (intro sound_intros rel_CommonRequest sound_ErrorStruct sound_CauseStruct;
        simp add: fst_field)
  then show ?thesis using assms ToSystemExceptionEncounteredRequest
    by (auto simp add: sound_def case_prod_beta simp del: matches.simps)
next
  case (ToAudioPlayerRequest r)
  have "sound (decode_struct AudioPlayerRequest_fields) (T_struct AudioPlayerRequest_members)"
    by (intro sound_struct rel_AudioPlayerRequest)
  then show ?thesis using assms ToAudioPlayerRequest
    by (auto simp add: sound_def case_prod_beta simp del: matches.simps)
next
  case (ToAudioPlayerPlaybackFailedRequest r)
  have "sound (decode_struct AudioPlayerPlaybackFailedRequest_fields)
          (T_struct (AudioPlayerRequest_members @
                      [(''error'', ErrorStruct_T),
                       (''currentPlaybackState'', PlaybackState_T)]))"
    unfolding AudioPlayerPlaybackFailedRequest_fields_def
    by (intro sound_intros rel_AudioPlayerRequest sound_ErrorStruct sound_PlaybackState;
        simp add: fst_field)
  then show ?thesis using assms ToAudioPlayerPlaybackFailedRequest
    by (auto simp add: sound_def case_prod_beta simp del: matches.simps)
next
  case NotAProvider
  with assms show ?thesis by simp
qed

lemma target_type_setContext:
  "provider_setContext c obj = Inr obj1 \<Longrightarrow> target_type obj1 = target_type obj"
  by (cases obj) auto

lemma target_type_setSession:
  "provider_setSession c obj = Inr obj1 \<Longrightarrow> target_type obj1 = target_type obj"
  by (cases obj) auto

lemma provider_setContext_Inr:
  "target_type obj = Some t \<Longrightarrow> \<exists>obj1. provider_setContext c obj = Inr obj1"
  by (cases obj) auto

lemma provider_setSession_Inr:
  "target_type obj = Some t \<Longrightarrow> \<exists>obj1. provider_setSession c obj = Inr obj1"
  by (cases obj) auto

lemmas json_eval = getTypedRequest_def envelope_of_def zero_CommonRequest_def
  LaunchRequest_fields_def CommonRequest_fields_def decode_struct_def decode_object_def
  lookup_field_def on_target_def struct_field_def pointer_field_def decode_string_def
  saveError_def setContext_def setSession_def toUpper_def runeSize_def acceptRange_def
  continuation_def Session_fields_def Context_fields_def decode_bool_def decode_map_def
  decode_interface_def Application_fields_def User_fields_def System_fields_def
  AudioPlayer_fields_def Device_fields_def decode_int_def CommonRequest_members_def

text \<open>
  C1, as the code has it. Given a pointer to one of the request structs,
  \<^verbatim>\<open>getTypedRequest\<close> returns (it does not panic), and it returns an error exactly when the
  payload, as serialized, holds a value of the wrong JSON kind: when the payload is neither
  \<open>null\<close> nor an object, or when a member that names a field of the struct, or an entry
  of a map field (at any depth, by the decoder's matching of names), holds a value that
  is not \<open>null\<close> and not of the kind of the field: a string for a string, a boolean for a
  bool, a number that is an \<^verbatim>\<open>int64\<close> for an int, an object for a struct or a map, anything
  for an \<^verbatim>\<open>interface{}\<close>. This is \<open>\<not> matches\<close>. No member is
  required, so a payload that lacks members of the variant, or all of them, gives no
  error; and that the target is left as it was passed in is no part of this: see the
  examples below.
\<close>

theorem getTypedRequest_error_iff_not_matches:
  assumes "target_type requestObj = Some t"
  shows "\<exists>env1 obj1 err.
           getTypedRequest requestEnvelope requestObj = Inr ((env1, obj1), err)
         \<and> (err \<noteq> None) = (\<not> matches t (Marshal (Request requestEnvelope)))"
proof -
  from provider_setContext_Inr [OF assms] obtain o1
    where o1: "provider_setContext (Some EnvelopeField) requestObj = Inr o1" by blast
  have t1: "target_type o1 = Some t"
    using target_type_setContext [OF o1] assms by simp
  from provider_setSession_Inr [OF t1] obtain o2
    where o2: "provider_setSession (Some EnvelopeField) o1 = Inr o2" by blast
  have t2: "target_type o2 = Some t"
    using target_type_setSession [OF o2] t1 by simp
  obtain env1 obj1 err
    where u: "Unmarshal (Marshal (Request requestEnvelope)) (requestEnvelope, o2)
                = ((env1, obj1), err)"
    by (metis surj_pair)
  from Unmarshal_error [OF t2, of "Marshal (Request requestEnvelope)" requestEnvelope] u
  have "(err = None) = matches t (Marshal (Request requestEnvelope))" by simp
  then have e: "(err \<noteq> None) = (\<not> matches t (Marshal (Request requestEnvelope)))"
    by blast
  have "getTypedRequest requestEnvelope requestObj = Inr ((env1, obj1), err)"
    using o1 o2 u by (simp add: getTypedRequest_def)
  with e show ?thesis by blast
qed

text \<open>
  C1, as the code has it, at the payload \<^verbatim>\<open>{"locale": true}\<close> decoded into a
  \<^verbatim>\<open>LaunchRequest\<close>: a boolean where the field is a string, and an error.
\<close>

theorem getTypedRequest_error_iff_not_matches_witness:
  "target_type (ToLaunchRequest zero_CommonRequest) = Some (T_struct CommonRequest_members)
   \<and> \<not> matches (T_struct CommonRequest_members)
         (Marshal (Request (envelope_of (JObject [(''locale'', JBool True)]))))
   \<and> (\<exists>env1 obj1 err.
         getTypedRequest (envelope_of (JObject [(''locale'', JBool True)]))
           (ToLaunchRequest zero_CommonRequest)
         = Inr ((env1, obj1), err)
       \<and> (err \<noteq> None)
           = (\<not> matches (T_struct CommonRequest_members)
                  (Marshal (Request (envelope_of (JObject [(''locale'', JBool True)]))))))"
proof -
  have t: "target_type (ToLaunchRequest zero_CommonRequest)
             = Some (T_struct CommonRequest_members)" by simp
  have m: "\<not> matches (T_struct CommonRequest_members)
         (Marshal (Request (envelope_of (JObject [(''locale'', JBool True)]))))"
    by (simp add: json_eval)
  from getTypedRequest_error_iff_not_matches
         [OF t, of "envelope_of (JObject [(''locale'', JBool True)])"] t m
  show ?thesis by blast
qed

text \<open>
  C1, as stated, fails in both of its parts.

  It returns no error for a payload that lacks the fields of the variant: the empty
  object \<^verbatim>\<open>{}\<close> decoded into an \<^verbatim>\<open>IntentRequest\<close> gives nil, and so does the payload of a
  launch request, which has no \<open>intent\<close>; the \<^verbatim>\<open>IntentRequest\<close> comes back with its \<open>Intent\<close>
  the zero value.

  And where it returns an error the target is not as it was passed in: the payload
  \<^verbatim>\<open>{"type": 5, "requestId": "abc"}\<close> decoded into a \<^verbatim>\<open>LaunchRequest\<close> gives an error, and
  the target comes back with its \<open>RequestID\<close> decoded and with the \<open>Session\<close> and \<open>Context\<close>
  pointers set.
\<close>

theorem getTypedRequest_neither_strict_nor_atomic:
  "getTypedRequest (envelope_of (JObject [])) (ToIntentRequest zero_IntentRequest)
      = Inr ((envelope_of (JObject []),
              ToIntentRequest
                \<lparr>CommonRequest.Type = [], CommonRequest.RequestID = [],
                 Timestamp = [], Locale = [],
                 CommonRequest.Session = Some EnvelopeField,
                 CommonRequest.Context = Some EnvelopeField,
                 Intent = zero_Intent, DialogState = []\<rparr>),
             None)
   \<and> getTypedRequest
        (envelope_of (JObject [(''type'', JString ''LaunchRequest''),
                               (''requestId'', JString ''r1''),
                               (''timestamp'', JString ''2020-01-01T00:00:00Z''),
                               (''locale'', JString ''en-US'')]))
        (ToIntentRequest zero_IntentRequest)
      = Inr ((envelope_of (JObject [(''type'', JString ''LaunchRequest''),
                               (''requestId'', JString ''r1''),
                               (''timestamp'', JString ''2020-01-01T00:00:00Z''),
                               (''locale'', JString ''en-US'')]),
              ToIntentRequest
                \<lparr>CommonRequest.Type = ''LaunchRequest'', CommonRequest.RequestID = ''r1'',
                 Timestamp = ''2020-01-01T00:00:00Z'', Locale = ''en-US'',
                 CommonRequest.Session = Some EnvelopeField,
                 CommonRequest.Context = Some EnvelopeField,
                 Intent = zero_Intent, DialogState = []\<rparr>),
             None)
   \<and> getTypedRequest
        (envelope_of (JObject [(''type'', JNumber ''5''), (''requestId'', JString ''abc'')]))
        (ToLaunchRequest zero_CommonRequest)
      = Inr ((envelope_of
                (JObject [(''type'', JNumber ''5''), (''requestId'', JString ''abc'')]),
              ToLaunchRequest
                \<lparr>CommonRequest.Type = [], CommonRequest.RequestID = ''abc'',
                 Timestamp = [], Locale = [],
                 CommonRequest.Session = Some EnvelopeField,
                 CommonRequest.Context = Some EnvelopeField\<rparr>),
             Some (UnmarshalTypeError ''number''))
   \<and> ToLaunchRequest
        \<lparr>CommonRequest.Type = [], CommonRequest.RequestID = ''abc'',
         Timestamp = [], Locale = [],
         CommonRequest.Session = Some EnvelopeField,
         CommonRequest.Context = Some EnvelopeField\<rparr>
      \<noteq> ToLaunchRequest zero_CommonRequest"
proof -
  have a: "getTypedRequest (envelope_of (JObject [])) (ToIntentRequest zero_IntentRequest)
      = Inr ((envelope_of (JObject []),
              ToIntentRequest
                \<lparr>CommonRequest.Type = [], CommonRequest.RequestID = [],
                 Timestamp = [], Locale = [],
                 CommonRequest.Session = Some EnvelopeField,
                 CommonRequest.Context = Some EnvelopeField,
                 Intent = zero_Intent, DialogState = []\<rparr>),
             None)"
    by (simp add: json_eval IntentRequest_fields_def zero_IntentRequest_def)
  have b: "getTypedRequest
        (envelope_of (JObject [(''type'', JString ''LaunchRequest''),
                               (''requestId'', JString ''r1''),
                               (''timestamp'', JString ''2020-01-01T00:00:00Z''),
                               (''locale'', JString ''en-US'')]))
        (ToIntentRequest zero_IntentRequest)
      = Inr ((envelope_of (JObject [(''type'', JString ''LaunchRequest''),
                               (''requestId'', JString ''r1''),
                               (''timestamp'', JString ''2020-01-01T00:00:00Z''),
                               (''locale'', JString ''en-US'')]),
              ToIntentRequest
                \<lparr>CommonRequest.Type = ''LaunchRequest'', CommonRequest.RequestID = ''r1'',
                 Timestamp = ''2020-01-01T00:00:00Z'', Locale = ''en-US'',
                 CommonRequest.Session = Some EnvelopeField,
                 CommonRequest.Context = Some EnvelopeField,
                 Intent = zero_Intent, DialogState = []\<rparr>),
             None)"
    by (simp add: json_eval IntentRequest_fields_def zero_IntentRequest_def)
  have c: "getTypedRequest
        (envelope_of (JObject [(''type'', JNumber ''5''), (''requestId'', JString ''abc'')]))
        (ToLaunchRequest zero_CommonRequest)
      = Inr ((envelope_of
                (JObject [(''type'', JNumber ''5''), (''requestId'', JString ''abc'')]),
              ToLaunchRequest
                \<lparr>CommonRequest.Type = [], CommonRequest.RequestID = ''abc'',
                 Timestamp = [], Locale = [],
                 CommonRequest.Session = Some EnvelopeField,
                 CommonRequest.Context = Some EnvelopeField\<rparr>),
             Some (UnmarshalTypeError ''number''))"
    by (simp add: json_eval)
  have d: "ToLaunchRequest
        \<lparr>CommonRequest.Type = [], CommonRequest.RequestID = ''abc'',
         Timestamp = [], Locale = [],
         CommonRequest.Session = Some EnvelopeField,
         CommonRequest.Context = Some EnvelopeField\<rparr>
      \<noteq> ToLaunchRequest zero_CommonRequest"
    by (simp add: zero_CommonRequest_def)
  from a b c d show ?thesis by blast
qed

text \<open>
  C3, at the input where the code departs from it. The payload
  \<^verbatim>\<open>{"type": "LaunchRequest", "Session": null}\<close> matches a \<^verbatim>\<open>LaunchRequest\<close> and the call
  returns nil, but the target's \<open>Session\<close> is nil afterwards: the pointer is set before
  the payload is decoded, and the untagged field takes the member of its name.
\<close>

theorem getTypedRequest_Session_null:
  "matches (T_struct CommonRequest_members)
     (Marshal (Request (envelope_of
        (JObject [(''type'', JString ''LaunchRequest''), (''Session'', JNull)]))))
   \<and> getTypedRequest
        (envelope_of (JObject [(''type'', JString ''LaunchRequest''), (''Session'', JNull)]))
        (ToLaunchRequest zero_CommonRequest)
      = Inr ((envelope_of
                (JObject [(''type'', JString ''LaunchRequest''), (''Session'', JNull)]),
              ToLaunchRequest
                \<lparr>CommonRequest.Type = ''LaunchRequest'', CommonRequest.RequestID = '''',
                 Timestamp = '''', Locale = '''',
                 CommonRequest.Session = None,
                 CommonRequest.Context = Some EnvelopeField\<rparr>),
             None)"
  by (simp add: json_eval matches_JNull)

text \<open>
  C5, at an input where the code departs from it. The pointers are injected before the
  payload is decoded, so members named \<open>context\<close> and \<open>session\<close> win: here \<open>Context\<close> ends
  nil, and the session member is decoded through the injected pointer into the
  envelope's own \<open>Session\<close>.
\<close>

theorem getTypedRequest_wire_overrides_injection:
  "getTypedRequest
     (envelope_of (JObject [(''type'', JString ''LaunchRequest''),
                            (''context'', JNull),
                            (''session'', JObject [(''sessionId'', JString ''from the wire'')])]))
     (ToLaunchRequest zero_CommonRequest)
   = Inr (((envelope_of (JObject [(''type'', JString ''LaunchRequest''),
                            (''context'', JNull),
                            (''session'', JObject [(''sessionId'', JString ''from the wire'')])]))
             \<lparr>RequestEnvelope.Session := zero_Session\<lparr>SessionID := ''from the wire''\<rparr>\<rparr>,
           ToLaunchRequest
             \<lparr>CommonRequest.Type = ''LaunchRequest'', CommonRequest.RequestID = '''',
              Timestamp = '''', Locale = '''',
              CommonRequest.Session = Some EnvelopeField,
              CommonRequest.Context = None\<rparr>),
          None)"
  by (simp add: json_eval)

section \<open>Properties of the Play directive's serialization\<close>

lemma toValidUTF8_valid: "ValidString s \<Longrightarrow> toValidUTF8 s = s"
proof (induction s rule: toValidUTF8.induct)
  case 1
  show ?case by simp
next
  case (2 c r)
  from "2.prems" have n: "runeSize (c # r) \<noteq> 0"
    and v: "ValidString (drop (runeSize (c # r) - 1) r)" by simp_all
  from "2.IH"(2) [OF n v] n show ?case by simp
qed

lemma digit_char:
  assumes "k < 10"
  shows "isDigit (''0123456789'' ! k) \<and> digit (''0123456789'' ! k) = k"
proof -
  from assms have "k \<in> {0, 1, 2, 3, 4, 5, 6, 7, 8, 9}" by auto
  then show ?thesis by (auto simp: isDigit_def digit_def)
qed

lemma digits_decimal:
  "digits n \<noteq> [] \<and> list_all isDigit (digits n)
   \<and> foldl (\<lambda>m c. 10 * m + digit c) 0 (digits n) = n"
proof (induction n rule: digits.induct)
  case (1 n)
  show ?case
  proof (cases "n < 10")
    case True
    then show ?thesis using digit_char [of n] by (simp add: digits.simps [of n])
  next
    case False
    from False have m: "n mod 10 < 10" by simp
    from "1.IH" [OF False] digit_char [OF m] False
    show ?thesis by (simp add: digits.simps [of n])
  qed
qed

lemma decimal_digits: "decimal (digits n) = Some n"
  using digits_decimal [of n] by (simp add: decimal_def)

lemma hd_digits: "isDigit (hd (digits n))"
  using digits_decimal [of n] by (cases "digits n") simp_all

lemma isDigit_not_sign: "isDigit c \<Longrightarrow> c \<noteq> CHR ''-'' \<and> c \<noteq> CHR ''+''"
  by (auto simp: isDigit_def)

lemma ParseInt_FormatInt:
  assumes "- (2 ^ 63) \<le> i" and "i < 2 ^ 63"
  shows "ParseInt (FormatInt i) = Some i"
proof (cases "i < 0")
  case True
  with assms have "nat (- i) \<le> 2 ^ 63" by simp
  with True show ?thesis
    using digits_decimal [of "nat (- i)"]
    by (simp add: ParseInt_def FormatInt_def decimal_digits)
next
  case False
  with assms have "nat i < 2 ^ 63" by simp
  moreover have "digits (nat i) \<noteq> []" using digits_decimal [of "nat i"] by simp
  moreover have "hd (digits (nat i)) \<noteq> CHR ''-''" "hd (digits (nat i)) \<noteq> CHR ''+''"
    using isDigit_not_sign [OF hd_digits [of "nat i"]] by simp_all
  ultimately show ?thesis using False
    by (simp add: ParseInt_def FormatInt_def decimal_digits)
qed

lemma decode_int_FormatInt:
  "decode_int (JNumber (FormatInt (sint (off :: go_int)))) v = (off, None)"
proof -
  have "- (2 ^ 63) \<le> sint off" "sint off < 2 ^ 63"
    using sint_ge [of off] sint_lt [of off] by simp_all
  then have "ParseInt (FormatInt (sint off)) = Some (sint off)"
    by (rule ParseInt_FormatInt)
  then show ?thesis by (simp add: decode_int_def)
qed

lemma reparsed_Stream:
  assumes "ValidString (URL (Stream (AudioItem d)))"
    and "ValidString (AudioItemStream.Token (Stream (AudioItem d)))"
    and "ValidString (ExpectedPreviousToken (Stream (AudioItem d)))"
  shows "Stream (AudioItem (fst (reparsed decode_metadata metadata_json d)))
           = Stream (AudioItem d)"
  using assms
  by (cases "Metadata (AudioItem d)")
     (simp_all add: reparsed_def Marshal_PlayDirective_def Marshal_AudioItem_def
        Marshal_Stream_def AudioPlayerPlayDirective_fields_def AudioItem_fields_def
        AudioItemStream_fields_def zero_AudioPlayerPlayDirective_def decode_struct_def
        decode_object_def lookup_field_def struct_field_def decode_string_def
        decode_int_FormatInt toValidUTF8_valid saveError_def case_prod_beta)

text \<open>
  Claim C8, as the code has it. For every offset, and every url, token and
  expectedPreviousToken that are valid UTF-8: a Play directive configured by
  \<^verbatim>\<open>SetAudioItemStream(url, token, expectedPreviousToken, offset)\<close>, serialized and decoded
  into a new directive, has exactly these four values in \<^verbatim>\<open>audioItem.stream\<close>, whatever
  the directive held before and however its metadata is written and read.
\<close>

theorem Play_stream_roundtrip:
  assumes "ValidString url" and "ValidString token" and "ValidString expectedPreviousToken"
    and "obj_at w d = Some (PlayObj pd0)"
  shows "\<exists>w1 pd.
           SetAudioItemStream d url token expectedPreviousToken offsetInMilliseconds w = Inr w1
         \<and> obj_at w1 d = Some (PlayObj pd)
         \<and> Stream (AudioItem (fst (reparsed decode_metadata metadata_json pd)))
             = \<lparr>URL = url, Token = token, ExpectedPreviousToken = expectedPreviousToken,
                OffsetInMilliseconds = offsetInMilliseconds\<rparr>"
proof -
  let ?s = "\<lparr>URL = url, Token = token, ExpectedPreviousToken = expectedPreviousToken,
             OffsetInMilliseconds = offsetInMilliseconds\<rparr>"
  let ?pd = "pd0\<lparr>AudioItem := (AudioItem pd0)\<lparr>Stream := ?s\<rparr>\<rparr>"
  from assms(4) have dlt: "d < length (heap w)" by (rule obj_at_Some_length)
  have a: "SetAudioItemStream d url token expectedPreviousToken offsetInMilliseconds w
             = Inr (store d (PlayObj ?pd) w)"
    using assms(4) by (simp add: SetAudioItemStream_def)
  have b: "obj_at (store d (PlayObj ?pd) w) d = Some (PlayObj ?pd)"
    using dlt by (rule obj_at_store_same)
  have c: "Stream (AudioItem (fst (reparsed decode_metadata metadata_json ?pd))) = ?s"
    using reparsed_Stream [of ?pd decode_metadata metadata_json] assms(1,2,3) by simp
  from a b c show ?thesis by blast
qed

text \<open>
  Claim C8, the example of the specification:
  \<^verbatim>\<open>SetAudioItemStream("https://x/a.mp3", "tok1", "tok0", 1500)\<close> on the directive that
  \<^verbatim>\<open>AddAudioPlayerPlayDirective("REPLACE_ALL")\<close> has just made.
\<close>

theorem Play_stream_roundtrip_witness:
  "ValidString ''https://x/a.mp3'' \<and> ValidString ''tok1'' \<and> ValidString ''tok0''
   \<and> obj_at (snd (snd (AddAudioPlayerPlayDirective ''REPLACE_ALL'' \<lparr>Directives = []\<rparr>
                          \<lparr>heap = [], logged = []\<rparr>))) 0
       = Some (PlayObj \<lparr>AudioPlayerPlayDirective.Type = ''AudioPlayer.Play'',
                        PlayBehavior = ''REPLACE_ALL'',
                        AudioItem = \<lparr>Stream = \<lparr>URL = [], Token = [],
                                                ExpectedPreviousToken = [],
                                                OffsetInMilliseconds = 0\<rparr>,
                                     Metadata = None\<rparr>\<rparr>)
   \<and> (\<exists>w1 pd.
         SetAudioItemStream 0 ''https://x/a.mp3'' ''tok1'' ''tok0'' 1500
           (snd (snd (AddAudioPlayerPlayDirective ''REPLACE_ALL'' \<lparr>Directives = []\<rparr>
                        \<lparr>heap = [], logged = []\<rparr>))) = Inr w1
       \<and> obj_at w1 0 = Some (PlayObj pd)
       \<and> Stream (AudioItem (fst (reparsed keep_metadata no_metadata_json pd)))
           = \<lparr>URL = ''https://x/a.mp3'', Token = ''tok1'', ExpectedPreviousToken = ''tok0'',
              OffsetInMilliseconds = 1500\<rparr>)"
proof -
  have v: "ValidString ''https://x/a.mp3''" "ValidString ''tok1''" "ValidString ''tok0''"
    by (simp_all add: runeSize_def)
  have h: "obj_at (snd (snd (AddAudioPlayerPlayDirective ''REPLACE_ALL'' \<lparr>Directives = []\<rparr>
                          \<lparr>heap = [], logged = []\<rparr>))) 0
       = Some (PlayObj \<lparr>AudioPlayerPlayDirective.Type = ''AudioPlayer.Play'',
                        PlayBehavior = ''REPLACE_ALL'',
                        AudioItem = \<lparr>Stream = \<lparr>URL = [], Token = [],
                                                ExpectedPreviousToken = [],
                                                OffsetInMilliseconds = 0\<rparr>,
                                     Metadata = None\<rparr>\<rparr>)"
    by (simp add: AddAudioPlayerPlayDirective_def new_def obj_at_def)
  from Play_stream_roundtrip [OF v h, of 1500 keep_metadata no_metadata_json] v h
  show ?thesis by blast
qed

text \<open>
  Claim C8 as stated, for every url, fails at a url that is not valid UTF-8: the encoder
  writes U+FFFD for the byte \<open>0xFF\<close>, so the directive read back holds the three bytes
  \<open>EF BF BD\<close> where the one configured holds \<open>FF\<close>.
\<close>

theorem Play_stream_roundtrip_not_for_every_url:
  "SetAudioItemStream 0 [CHR 0xFF] ''tok1'' ''tok0'' 1500
        (snd (snd (AddAudioPlayerPlayDirective ''REPLACE_ALL'' \<lparr>Directives = []\<rparr>
                     \<lparr>heap = [], logged = []\<rparr>)))
      = Inr \<lparr>heap = [PlayObj
                \<lparr>AudioPlayerPlayDirective.Type = ''AudioPlayer.Play'',
                 PlayBehavior = ''REPLACE_ALL'',
                 AudioItem = \<lparr>Stream = \<lparr>URL = [CHR 0xFF], Token = ''tok1'',
                                         ExpectedPreviousToken = ''tok0'',
                                         OffsetInMilliseconds = 1500\<rparr>,
                              Metadata = None\<rparr>\<rparr>],
              logged = []\<rparr>
   \<and> Stream (AudioItem (fst (reparsed keep_metadata no_metadata_json
        \<lparr>AudioPlayerPlayDirective.Type = ''AudioPlayer.Play'',
         PlayBehavior = ''REPLACE_ALL'',
         AudioItem = \<lparr>Stream = \<lparr>URL = [CHR 0xFF], Token = ''tok1'',
                                 ExpectedPreviousToken = ''tok0'',
                                 OffsetInMilliseconds = 1500\<rparr>,
                      Metadata = None\<rparr>\<rparr>)))
      = \<lparr>URL = [CHR 0xEF, CHR 0xBF, CHR 0xBD], Token = ''tok1'',
         ExpectedPreviousToken = ''tok0'', OffsetInMilliseconds = 1500\<rparr>
   \<and> [CHR 0xEF, CHR 0xBF, CHR 0xBD] \<noteq> [CHR 0xFF]"
proof -
  have u: "toValidUTF8 [CHR 0xFF] = [CHR 0xEF, CHR 0xBF, CHR 0xBD]"
    by (simp add: runeSize_def acceptRange_def)
  have t: "toValidUTF8 ''tok1'' = ''tok1''" "toValidUTF8 ''tok0'' = ''tok0''"
    "toValidUTF8 ''AudioPlayer.Play'' = ''AudioPlayer.Play''"
    "toValidUTF8 ''REPLACE_ALL'' = ''REPLACE_ALL''"
    by (simp_all add: runeSize_def)
  have n: "decode_int (JNumber (FormatInt 1500)) v = (1500, None)" for v
    using decode_int_FormatInt [of 1500 v] by simp
  have a: "SetAudioItemStream 0 [CHR 0xFF] ''tok1'' ''tok0'' 1500
        (snd (snd (AddAudioPlayerPlayDirective ''REPLACE_ALL'' \<lparr>Directives = []\<rparr>
                     \<lparr>heap = [], logged = []\<rparr>)))
      = Inr \<lparr>heap = [PlayObj
                \<lparr>AudioPlayerPlayDirective.Type = ''AudioPlayer.Play'',
                 PlayBehavior = ''REPLACE_ALL'',
                 AudioItem = \<lparr>Stream = \<lparr>URL = [CHR 0xFF], Token = ''tok1'',
                                         ExpectedPreviousToken = ''tok0'',
                                         OffsetInMilliseconds = 1500\<rparr>,
                              Metadata = None\<rparr>\<rparr>],
              logged = []\<rparr>"
    by (simp add: SetAudioItemStream_def AddAudioPlayerPlayDirective_def new_def obj_at_def
          store_def)
  have b: "Stream (AudioItem (fst (reparsed keep_metadata no_metadata_json
        \<lparr>AudioPlayerPlayDirective.Type = ''AudioPlayer.Play'',
         PlayBehavior = ''REPLACE_ALL'',
         AudioItem = \<lparr>Stream = \<lparr>URL = [CHR 0xFF], Token = ''tok1'',
                                 ExpectedPreviousToken = ''tok0'',
                                 OffsetInMilliseconds = 1500\<rparr>,
                      Metadata = None\<rparr>\<rparr>)))
      = \<lparr>URL = [CHR 0xEF, CHR 0xBF, CHR 0xBD], Token = ''tok1'',
         ExpectedPreviousToken = ''tok0'', OffsetInMilliseconds = 1500\<rparr>"
    by (simp add: reparsed_def Marshal_PlayDirective_def Marshal_AudioItem_def
          Marshal_Stream_def AudioPlayerPlayDirective_fields_def AudioItem_fields_def
          AudioItemStream_fields_def zero_AudioPlayerPlayDirective_def decode_struct_def
          decode_object_def lookup_field_def struct_field_def decode_string_def
          u t n saveError_def case_prod_beta del: toValidUTF8.simps)
  have c: "[CHR 0xEF, CHR 0xBF, CHR 0xBD] \<noteq> [CHR 0xFF]" by simp
  from a b c show ?thesis by blast
qed

end
